theory Spec2Isabelle
  imports Main "HOL-Library.Word"
begin

unbundle bit_operations_syntax

section \<open>Byte order\<close>

text \<open>
  The RTP header fields \<open>timestamp\<close> and \<open>seq_number\<close> are kept in the buffer in network
  byte order; the plugin reads them with \<open>ntohl\<close>/\<open>ntohs\<close> and writes them with
  \<open>htonl\<close>/\<open>htons\<close>. On the little-endian hosts the plugin is built for, both directions
  are the byte swap below.
\<close>

definition htons :: "16 word \<Rightarrow> 16 word" where
  "htons x = push_bit 8 x OR drop_bit 8 x"

definition ntohs :: "16 word \<Rightarrow> 16 word" where
  "ntohs x = htons x"

definition htonl :: "32 word \<Rightarrow> 32 word" where
  "htonl x = push_bit 24 x OR push_bit 16 (take_bit 8 (drop_bit 8 x))
             OR push_bit 8 (take_bit 8 (drop_bit 16 x)) OR drop_bit 24 x"

definition ntohl :: "32 word \<Rightarrow> 32 word" where
  "ntohl x = htonl x"

section \<open>Data model\<close>

type_synonym gint = int
type_synonym gint64 = int
type_synonym bytes = "8 word list"

text \<open>The fields of \<open>janus_rtp_header\<close> the plugin touches (\<open>ptype\<close> is the C field \<open>type\<close>).\<close>

record janus_rtp_header =
  markerbit :: bool
  ptype :: int
  seq_number :: "16 word"
  timestamp :: "32 word"
  ssrc :: "32 word"

text \<open>
  A received datagram: the header overlay on its first bytes and the bytes that follow.
\<close>

record janus_buffer =
  hdr :: janus_rtp_header
  body :: bytes

record janus_vp9_svc_info =
  svc_spatial_layer :: int
  svc_temporal_layer :: int
  fbit :: bool
  pbit :: bool
  dbit :: bool
  ubit :: bool
  bbit :: bool
  ebit :: bool

datatype janus_videocodec =
  JANUS_VIDEOCODEC_NONE
  | JANUS_VIDEOCODEC_VP8
  | JANUS_VIDEOCODEC_VP9
  | JANUS_VIDEOCODEC_H264
  | JANUS_VIDEOCODEC_AV1
  | JANUS_VIDEOCODEC_H265

text \<open>
  \<open>janus_streaming_rtp_relay_packet\<close>. \<open>pkt_data\<close> is the pointer \<open>data\<close> (\<open>None\<close> is
  \<open>NULL\<close>), \<open>pkt_length\<close>, \<open>pkt_ssrc\<close>, \<open>pkt_timestamp\<close> and \<open>pkt_seq_number\<close> are the
  fields \<open>length\<close>, \<open>ssrc[3]\<close>, \<open>timestamp\<close> and \<open>seq_number\<close>.
\<close>

record janus_streaming_rtp_relay_packet =
  pkt_data :: "janus_buffer option"
  pkt_length :: int
  is_rtp :: bool
  is_video :: bool
  is_keyframe :: bool
  simulcast :: bool
  pkt_ssrc :: "32 word \<times> 32 word \<times> 32 word"
  codec :: janus_videocodec
  substream :: int
  pkt_timestamp :: "32 word"
  pkt_seq_number :: "16 word"
  svc :: bool
  svc_info :: janus_vp9_svc_info
  textdata :: bool

text \<open>
  The switching and simulcast contexts are declared by the host's RTP utilities; only the
  fields this plugin reads or writes are named, the remainder is a type parameter.
  \<open>v_base_seq\<close> is an unsigned 16-bit counter there, so \<open>++\<close> wraps at \<open>65535\<close>.
\<close>

record 'c janus_rtp_switching_context =
  v_base_seq :: "16 word"
  ctx_rest :: 'c

record 's janus_rtp_simulcasting_context =
  sim_need_pli :: bool
  changed_substream :: bool
  changed_temporal :: bool
  sim_substream :: int
  templayer :: int
  sim_rest :: 's

text \<open>
  \<open>janus_streaming_session\<close>. \<open>handle\<close> is \<open>None\<close> for a \<open>NULL\<close> handle, otherwise the
  identity of the viewer's connection. \<open>mountpoint\<close> is \<open>None\<close> for a \<open>NULL\<close> mountpoint,
  otherwise \<open>Some b\<close> where \<open>b\<close> says that the mountpoint's \<open>source\<close> is not \<open>NULL\<close>.
  \<open>rtp_context\<close> is the field \<open>context\<close>. \<open>last_spatial_layer\<close> is the array
  \<open>gint64 last_spatial_layer[3]\<close>, read as memory indexed by the layer number: the code
  writes cells \<open>0..2\<close> only and reads the cell of the candidate layer without a bound check.
\<close>

record ('c, 's, 'v) janus_streaming_session =
  handle :: "nat option"
  mountpoint :: "bool option"
  started :: gint
  paused :: gint
  audio :: bool
  video :: bool
  data :: bool
  rtp_context :: "'c janus_rtp_switching_context"
  sim_context :: "'s janus_rtp_simulcasting_context"
  vp8_context :: 'v
  spatial_layer :: int
  target_spatial_layer :: int
  last_spatial_layer :: "int \<Rightarrow> gint64"
  temporal_layer :: int
  target_temporal_layer :: int
  dataready :: gint
  stopping :: gint
  hangingup :: gint
  destroyed :: gint

text \<open>
  Functions of the host's RTP utilities that the plugin calls and that are not part of
  this file; each is a parameter. \<open>janus_rtp_header_update\<close> rewrites the header and the
  switching context (its \<open>step\<close> argument is always \<open>0\<close> here). \<open>janus_rtp_payload\<close>
  returns the offset of the payload in \<open>body\<close> and its length, or \<open>None\<close> for \<open>NULL\<close>.
  \<open>srtp_unprotect\<close> returns whether the status is \<open>srtp_err_status_ok\<close>, the buffer
  decrypted in place and the new length. The skew compensation functions return their
  \<open>int\<close> result with the header and context they leave. \<open>janus_vp9_parse_svc\<close> returns
  its result code, the \<open>found\<close> flag and the \<open>svc_info\<close> it filled in.
\<close>

record ('c, 's, 'v) janus_lib =
  janus_rtp_header_update ::
    "janus_rtp_header \<Rightarrow> 'c janus_rtp_switching_context \<Rightarrow> bool
      \<Rightarrow> janus_rtp_header \<times> 'c janus_rtp_switching_context"
  janus_rtp_payload :: "janus_buffer \<Rightarrow> int \<Rightarrow> (nat \<times> int) option"
  janus_vp9_is_keyframe :: "bytes option \<Rightarrow> int \<Rightarrow> bool"
  janus_rtp_simulcasting_context_process_rtp ::
    "'s janus_rtp_simulcasting_context \<Rightarrow> janus_buffer \<Rightarrow> int
      \<Rightarrow> 32 word \<times> 32 word \<times> 32 word \<Rightarrow> janus_videocodec
      \<Rightarrow> 'c janus_rtp_switching_context
      \<Rightarrow> bool \<times> 's janus_rtp_simulcasting_context \<times> 'c janus_rtp_switching_context"
  janus_vp8_simulcast_descriptor_update :: "bytes \<Rightarrow> int \<Rightarrow> 'v \<Rightarrow> bool \<Rightarrow> bytes \<times> 'v"
  janus_rtp_switching_context_reset ::
    "'c janus_rtp_switching_context \<Rightarrow> 'c janus_rtp_switching_context"
  janus_is_rtp :: "janus_buffer \<Rightarrow> int \<Rightarrow> bool"
  srtp_unprotect :: "janus_buffer \<Rightarrow> int \<Rightarrow> bool \<times> janus_buffer \<times> int"
  janus_rtp_skew_compensate_audio ::
    "janus_rtp_header \<Rightarrow> 'c janus_rtp_switching_context \<Rightarrow> gint64
      \<Rightarrow> int \<times> janus_rtp_header \<times> 'c janus_rtp_switching_context"
  janus_rtp_skew_compensate_video ::
    "janus_rtp_header \<Rightarrow> 'c janus_rtp_switching_context \<Rightarrow> gint64
      \<Rightarrow> int \<times> janus_rtp_header \<times> 'c janus_rtp_switching_context"
  janus_vp8_is_keyframe :: "bytes \<Rightarrow> int \<Rightarrow> bool"
  janus_h264_is_keyframe :: "bytes \<Rightarrow> int \<Rightarrow> bool"
  janus_av1_is_keyframe :: "bytes \<Rightarrow> int \<Rightarrow> bool"
  janus_h265_is_keyframe :: "bytes \<Rightarrow> int \<Rightarrow> bool"
  janus_vp9_parse_svc :: "bytes \<Rightarrow> int \<Rightarrow> int \<times> bool \<times> janus_vp9_svc_info"

text \<open>Calls into the host gateway, in the order they are made.\<close>

datatype json_event =
  Ev_spatial_layer int "int option"
  | Ev_temporal_layer int
  | Ev_substream int
  | Ev_temporal int
  | Ev_status string

datatype gateway_call =
  Relay_rtp nat bool janus_buffer int
  | Relay_data nat bool janus_buffer int
  | Relay_rtcp nat bool janus_buffer int
  | Push_event nat json_event
  | Close_pc nat

text \<open>
  What one call of \<open>janus_streaming_relay_rtp_packet\<close> leaves behind: the session, the
  contents of the shared buffer \<open>packet->data\<close>, the gateway calls made, and whether the
  source's \<open>need_pli\<close> flag was set.
\<close>

record ('c, 's, 'v) relay_outcome =
  out_session :: "('c, 's, 'v) janus_streaming_session"
  out_data :: "janus_buffer option"
  out_calls :: "gateway_call list"
  out_need_pli :: bool

section \<open>Per-viewer forwarding: \<open>janus_streaming_relay_rtp_packet\<close>\<close>

definition dropped ::
  "('c, 's, 'v) janus_streaming_session \<Rightarrow> janus_streaming_rtp_relay_packet
    \<Rightarrow> ('c, 's, 'v) relay_outcome" where
  "dropped s p = \<lparr>out_session = s, out_data = pkt_data p, out_calls = [], out_need_pli = False\<rparr>"

text \<open>
  The \<open>while\<close> loop of the spatial upscale: starting from the target layer, step down
  while the candidate is above the current layer and above \<open>0\<close> and has seen no packet
  for \<open>250000\<close> microseconds.
\<close>

function new_spatial_layer_loop :: "(int \<Rightarrow> gint64) \<Rightarrow> gint64 \<Rightarrow> int \<Rightarrow> int \<Rightarrow> int" where
  "new_spatial_layer_loop seen now cur new =
     (if new > cur \<and> new > 0 then
        (if now - seen new \<ge> 250000 then new_spatial_layer_loop seen now cur (new - 1)
         else new)
      else new)"
  by pat_completeness auto
termination
  by (relation "measure (\<lambda>(seen, now, cur, new). nat new)") auto

declare new_spatial_layer_loop.simps [simp del]

text \<open>
  The spatial layer selection of the SVC path, in the order of the source: note the time
  of the packet's layer, then upscale or downscale. Each part returns the session, the
  local variable \<open>spatial_layer\<close> the drop test compares against, and the events pushed;
  \<open>spatial_layer0\<close> is the value that local was initialised with.
\<close>

definition svc_note_layer ::
  "gint64 \<Rightarrow> janus_vp9_svc_info \<Rightarrow> ('c, 's, 'v) janus_streaming_session
    \<Rightarrow> ('c, 's, 'v) janus_streaming_session" where
  "svc_note_layer now info s =
     (if svc_spatial_layer info \<ge> 0 \<and> svc_spatial_layer info \<le> 2
      then s\<lparr>last_spatial_layer := (last_spatial_layer s)(svc_spatial_layer info := now)\<rparr>
      else s)"

definition svc_upscale ::
  "bool \<Rightarrow> gint64 \<Rightarrow> nat \<Rightarrow> int \<Rightarrow> ('c, 's, 'v) janus_streaming_session
    \<Rightarrow> ('c, 's, 'v) janus_streaming_session \<times> int \<times> gateway_call list" where
  "svc_upscale keyframe now h spatial_layer0 s =
     (if keyframe then
        (let new_spatial_layer =
               new_spatial_layer_loop (last_spatial_layer s) now (spatial_layer s)
                 (target_spatial_layer s)
         in if new_spatial_layer > spatial_layer s then
              (if temporal_layer s = - 1 then
                 (s\<lparr>spatial_layer := new_spatial_layer, temporal_layer := 0\<rparr>,
                  new_spatial_layer,
                  [Push_event h (Ev_spatial_layer new_spatial_layer (Some 0))])
               else
                 (s\<lparr>spatial_layer := new_spatial_layer\<rparr>,
                  new_spatial_layer,
                  [Push_event h (Ev_spatial_layer new_spatial_layer None)]))
            else (s, spatial_layer0, []))
      else (s, spatial_layer0, []))"

definition svc_downscale ::
  "bool \<Rightarrow> nat \<Rightarrow> janus_vp9_svc_info \<Rightarrow> int \<Rightarrow> ('c, 's, 'v) janus_streaming_session
    \<Rightarrow> ('c, 's, 'v) janus_streaming_session \<times> int \<times> gateway_call list" where
  "svc_downscale keyframe h info spatial_layer0 s =
     (let downscaled =
            (if \<not> fbit info \<and> keyframe then True
             else if fbit info \<and> ebit info then True
             else False)
      in if downscaled then
           (s\<lparr>spatial_layer := target_spatial_layer s\<rparr>,
            spatial_layer0,
            [Push_event h (Ev_spatial_layer (target_spatial_layer s) None)])
         else (s, spatial_layer0, []))"

definition svc_spatial ::
  "bool \<Rightarrow> gint64 \<Rightarrow> nat \<Rightarrow> janus_vp9_svc_info \<Rightarrow> ('c, 's, 'v) janus_streaming_session
    \<Rightarrow> ('c, 's, 'v) janus_streaming_session \<times> int \<times> gateway_call list" where
  "svc_spatial keyframe now h info s0 =
     (let spatial_layer0 = spatial_layer s0;
          s1 = svc_note_layer now info s0
      in if target_spatial_layer s1 > spatial_layer s1 then
           svc_upscale keyframe now h spatial_layer0 s1
         else if target_spatial_layer s1 < spatial_layer s1 then
           svc_downscale keyframe h info spatial_layer0 s1
         else (s1, spatial_layer0, []))"

text \<open>The temporal layer selection; the local variable \<open>temporal_layer\<close> is the second result.\<close>

definition svc_temporal ::
  "nat \<Rightarrow> janus_vp9_svc_info \<Rightarrow> ('c, 's, 'v) janus_streaming_session
    \<Rightarrow> ('c, 's, 'v) janus_streaming_session \<times> int \<times> gateway_call list" where
  "svc_temporal h info s =
     (let temporal_layer0 = temporal_layer s
      in if target_temporal_layer s > temporal_layer s then
           (if ubit info \<and> bbit info \<and> svc_temporal_layer info > temporal_layer s
                \<and> svc_temporal_layer info \<le> target_temporal_layer s then
              (s\<lparr>temporal_layer := svc_temporal_layer info\<rparr>,
               svc_temporal_layer info,
               [Push_event h (Ev_temporal_layer (svc_temporal_layer info))])
            else (s, temporal_layer0, []))
         else if target_temporal_layer s < temporal_layer s then
           (if ebit info \<and> svc_temporal_layer info = target_temporal_layer s then
              (s\<lparr>temporal_layer := target_temporal_layer s\<rparr>,
               temporal_layer0,
               [Push_event h (Ev_temporal_layer (target_temporal_layer s))])
            else (s, temporal_layer0, []))
         else (s, temporal_layer0, []))"

text \<open>Restoring the header to what the publisher set, from the fields saved in the packet.\<close>

definition restore_header ::
  "janus_streaming_rtp_relay_packet \<Rightarrow> janus_rtp_header \<Rightarrow> janus_rtp_header" where
  "restore_header p h =
     h\<lparr>timestamp := htonl (pkt_timestamp p), seq_number := htons (pkt_seq_number p)\<rparr>"

text \<open>A layer drop: the packet is not sent and \<open>context.v_base_seq\<close> is incremented.\<close>

definition svc_drop ::
  "('c, 's, 'v) janus_streaming_session \<Rightarrow> janus_buffer \<Rightarrow> gateway_call list
    \<Rightarrow> ('c, 's, 'v) relay_outcome" where
  "svc_drop s buf evs =
     \<lparr>out_session = s\<lparr>rtp_context := (rtp_context s)\<lparr>v_base_seq := v_base_seq (rtp_context s) + 1\<rparr>\<rparr>,
      out_data = Some buf, out_calls = evs, out_need_pli = False\<rparr>"

text \<open>
  The keyframe test at the head of the SVC path:
  \<open>janus_vp9_is_keyframe(janus_rtp_payload(data, length, &plen), plen)\<close>.
\<close>

definition svc_keyframe ::
  "('c, 's, 'v) janus_lib \<Rightarrow> janus_streaming_rtp_relay_packet \<Rightarrow> janus_buffer \<Rightarrow> bool" where
  "svc_keyframe lib p buf =
     (let pl = janus_rtp_payload lib buf (pkt_length p);
          payload = map_option (\<lambda>(off, n). drop off (body buf)) pl;
          plen = (case pl of None \<Rightarrow> 0 | Some (off, n) \<Rightarrow> n)
      in janus_vp9_is_keyframe lib payload plen)"

text \<open>
  The tail of the SVC path, once the packet has passed both layer tests: rewrite the
  header, force the marker bit if asked, send, undo the marker bit, restore.
\<close>

definition svc_send ::
  "('c, 's, 'v) janus_lib \<Rightarrow> bool \<Rightarrow> nat \<Rightarrow> ('c, 's, 'v) janus_streaming_session
    \<Rightarrow> janus_streaming_rtp_relay_packet \<Rightarrow> janus_buffer \<Rightarrow> bool \<Rightarrow> gateway_call list
    \<Rightarrow> ('c, 's, 'v) relay_outcome" where
  "svc_send lib gateway h s p buf override_mark_bit evs =
     (let has_marker_bit = markerbit (hdr buf);
          (h1, ctx1) = janus_rtp_header_update lib (hdr buf) (rtp_context s) True;
          h2 = (if override_mark_bit \<and> \<not> has_marker_bit then h1\<lparr>markerbit := True\<rparr> else h1);
          sent = buf\<lparr>hdr := h2\<rparr>;
          calls = (if gateway then [Relay_rtp h (is_video p) sent (pkt_length p)] else []);
          h3 = (if override_mark_bit \<and> \<not> has_marker_bit then h2\<lparr>markerbit := False\<rparr> else h2)
      in \<lparr>out_session = s\<lparr>rtp_context := ctx1\<rparr>,
          out_data = Some (buf\<lparr>hdr := restore_header p h3\<rparr>),
          out_calls = evs @ calls,
          out_need_pli = False\<rparr>)"

definition relay_svc ::
  "('c, 's, 'v) janus_lib \<Rightarrow> bool \<Rightarrow> gint64 \<Rightarrow> nat \<Rightarrow> ('c, 's, 'v) janus_streaming_session
    \<Rightarrow> janus_streaming_rtp_relay_packet \<Rightarrow> janus_buffer \<Rightarrow> ('c, 's, 'v) relay_outcome" where
  "relay_svc lib gateway now h s p buf =
     (let keyframe = svc_keyframe lib p buf;
          (s1, spatial_layer_l, ev1) = svc_spatial keyframe now h (svc_info p) s
      in if spatial_layer_l < svc_spatial_layer (svc_info p) then svc_drop s1 buf ev1
         else
           (let override_mark_bit =
                  (ebit (svc_info p) \<and> spatial_layer_l = svc_spatial_layer (svc_info p));
                (s2, temporal_layer_l, ev2) = svc_temporal h (svc_info p) s1
            in if temporal_layer_l < svc_temporal_layer (svc_info p) then
                 svc_drop s2 buf (ev1 @ ev2)
               else svc_send lib gateway h s2 p buf override_mark_bit (ev1 @ ev2)))"

text \<open>
  The simulcast path. For VP8 the first six payload bytes are saved before the descriptor
  is rewritten and copied back after the send.
\<close>

definition relay_simulcast ::
  "('c, 's, 'v) janus_lib \<Rightarrow> bool \<Rightarrow> nat \<Rightarrow> ('c, 's, 'v) janus_streaming_session
    \<Rightarrow> janus_streaming_rtp_relay_packet \<Rightarrow> janus_buffer \<Rightarrow> ('c, 's, 'v) relay_outcome" where
  "relay_simulcast lib gateway h s p buf =
     (case janus_rtp_payload lib buf (pkt_length p) of
        None \<Rightarrow> dropped s p
      | Some (off, plen) \<Rightarrow>
          (let (relay, sim1, ctx1) =
                 janus_rtp_simulcasting_context_process_rtp lib (sim_context s) buf
                   (pkt_length p) (pkt_ssrc p) (codec p) (rtp_context s);
               s1 = s\<lparr>rtp_context := ctx1, sim_context := sim1\<rparr>;
               need = (sim_need_pli sim1 \<and> mountpoint s1 = Some True)
           in if \<not> relay then
                \<lparr>out_session = s1, out_data = Some buf, out_calls = [], out_need_pli = need\<rparr>
              else
                (let ev1 = (if changed_substream sim1
                            then [Push_event h (Ev_substream (sim_substream sim1))] else []);
                     ev2 = (if changed_temporal sim1
                            then [Push_event h (Ev_temporal (templayer sim1))] else []);
                     (h1, ctx2) = janus_rtp_header_update lib (hdr buf) (rtp_context s1) True;
                     payload = drop off (body buf);
                     vp8pd = take 6 payload;
                     (payload1, vp8) =
                       (if codec p = JANUS_VIDEOCODEC_VP8
                        then janus_vp8_simulcast_descriptor_update lib payload plen
                               (vp8_context s1) (changed_substream sim1)
                        else (payload, vp8_context s1));
                     sent = \<lparr>hdr = h1, body = take off (body buf) @ payload1\<rparr>;
                     calls = (if gateway then [Relay_rtp h (is_video p) sent (pkt_length p)]
                              else []);
                     body2 = (if codec p = JANUS_VIDEOCODEC_VP8
                              then take off (body buf) @ vp8pd @ drop 6 payload1
                              else body sent)
                 in \<lparr>out_session = s1\<lparr>rtp_context := ctx2, vp8_context := vp8\<rparr>,
                     out_data = Some \<lparr>hdr = restore_header p h1, body = body2\<rparr>,
                     out_calls = ev1 @ ev2 @ calls,
                     out_need_pli = need\<rparr>)))"

text \<open>The default path, for video and for audio: rewrite, send, restore.\<close>

definition relay_plain ::
  "('c, 's, 'v) janus_lib \<Rightarrow> bool \<Rightarrow> nat \<Rightarrow> ('c, 's, 'v) janus_streaming_session
    \<Rightarrow> janus_streaming_rtp_relay_packet \<Rightarrow> janus_buffer \<Rightarrow> bool \<Rightarrow> ('c, 's, 'v) relay_outcome" where
  "relay_plain lib gateway h s p buf vid =
     (let (h1, ctx1) = janus_rtp_header_update lib (hdr buf) (rtp_context s) vid;
          sent = buf\<lparr>hdr := h1\<rparr>;
          calls = (if gateway then [Relay_rtp h (is_video p) sent (pkt_length p)] else [])
      in \<lparr>out_session = s\<lparr>rtp_context := ctx1\<rparr>,
          out_data = Some (buf\<lparr>hdr := restore_header p h1\<rparr>),
          out_calls = calls,
          out_need_pli = False\<rparr>)"

text \<open>
  \<open>janus_streaming_relay_rtp_packet(session, packet)\<close>. \<open>gateway\<close> says that the global
  callback table is not \<open>NULL\<close>; \<open>now\<close> is the value \<open>janus_get_monotonic_time\<close> returns
  on the SVC path.
\<close>

definition janus_streaming_relay_rtp_packet ::
  "('c, 's, 'v) janus_lib \<Rightarrow> bool \<Rightarrow> gint64 \<Rightarrow> ('c, 's, 'v) janus_streaming_session
    \<Rightarrow> janus_streaming_rtp_relay_packet \<Rightarrow> ('c, 's, 'v) relay_outcome" where
  "janus_streaming_relay_rtp_packet lib gateway now s p =
     (case pkt_data p of
        None \<Rightarrow> dropped s p
      | Some buf \<Rightarrow>
          if pkt_length p < 1 then dropped s p
          else
            (case handle s of
               None \<Rightarrow> dropped s p
             | Some h \<Rightarrow>
                 if \<not> is_keyframe p \<and> (started s = 0 \<or> paused s \<noteq> 0) then dropped s p
                 else if is_rtp p then
                   (if is_video p then
                      (if \<not> video s then dropped s p
                       else if svc p then relay_svc lib gateway now h s p buf
                       else if simulcast p then relay_simulcast lib gateway h s p buf
                       else relay_plain lib gateway h s p buf True)
                    else
                      (if \<not> audio s then dropped s p
                       else relay_plain lib gateway h s p buf False))
                 else
                   (if \<not> data s then dropped s p
                    else if gateway \<and> dataready s \<noteq> 0 then
                      \<lparr>out_session = s, out_data = Some buf,
                       out_calls = [Relay_data h (\<not> textdata p) buf (pkt_length p)],
                       out_need_pli = False\<rparr>
                    else dropped s p)))"

section \<open>The RTP source, the mountpoint and the plugin's global flags\<close>

text \<open>
  \<open>janus_streaming_rtp_keyframe\<close>: a \<open>GList\<close> is a list, \<open>NULL\<close> the empty one
  (\<open>kf_enabled\<close> is the field \<open>enabled\<close>).
\<close>

record janus_streaming_rtp_keyframe =
  kf_enabled :: bool
  latest_keyframe :: "janus_streaming_rtp_relay_packet list"
  temp_keyframe :: "janus_streaming_rtp_relay_packet list"
  temp_ts :: "32 word"

text \<open>
  The fields of \<open>janus_streaming_rtp_source\<close> used by the relay thread, by the media-setup
  callback and by the PLI helper. \<open>arc\<close>, \<open>vrc\<close> and \<open>drc\<close> say that the recorder pointer
  is not \<open>NULL\<close>; \<open>src_context\<close> is \<open>context[3]\<close>, \<open>src_simulcast\<close>, \<open>src_svc\<close> and
  \<open>src_textdata\<close> the fields \<open>simulcast\<close>, \<open>svc\<close> and \<open>textdata\<close>;
  \<open>audio_rtcp_addr_family\<close> and \<open>video_rtcp_addr_family\<close> are the \<open>ss_family\<close> of
  \<open>audio_rtcp_addr\<close> and \<open>video_rtcp_addr\<close>; \<open>last_msg\<close> is \<open>None\<close> for \<open>NULL\<close>.
\<close>

record 'c janus_streaming_rtp_source =
  arc :: bool
  vrc :: bool
  drc :: bool
  src_context :: "nat \<Rightarrow> 'c janus_rtp_switching_context"
  audio_rtcp_fd :: int
  video_rtcp_fd :: int
  src_simulcast :: bool
  src_svc :: bool
  askew :: bool
  vskew :: bool
  last_received_audio :: gint64
  last_received_video :: gint64
  last_received_data :: gint64
  audio_ssrc :: "32 word"
  video_ssrc :: "32 word"
  need_pli :: gint
  sending_pli :: gint
  pli_latest :: gint64
  lowest_bitrate :: "32 word"
  audio_rtcp_addr_family :: int
  video_rtcp_addr_family :: int
  keyframe :: janus_streaming_rtp_keyframe
  src_textdata :: bool
  buffermsg :: bool
  rtp_collision :: int
  last_msg :: "janus_streaming_rtp_relay_packet option"
  is_srtp :: bool

record janus_streaming_codecs =
  audio_pt :: int
  video_codec :: janus_videocodec
  video_pt :: int

datatype janus_streaming_source =
  janus_streaming_source_none
  | janus_streaming_source_file
  | janus_streaming_source_rtp

text \<open>A helper thread, as the relay thread sees it: its queue of cloned packets.\<close>

record janus_streaming_helper =
  helper_id :: nat
  queued_packets :: "janus_streaming_rtp_relay_packet list"

record ('c, 's, 'v) janus_streaming_mountpoint =
  mp_id :: "64 word"
  enabled :: bool
  active :: bool
  codecs :: janus_streaming_codecs
  viewers :: "('c, 's, 'v) janus_streaming_session list"
  helper_threads :: int
  threads :: "janus_streaming_helper list"

text \<open>The global flags \<open>stopping\<close> and \<open>initialized\<close>, and whether \<open>gateway\<close> is set.\<close>

record plugin_env =
  g_stopping :: gint
  g_initialized :: gint
  g_gateway :: bool

text \<open>GLib's number of microseconds in a second.\<close>

definition G_USEC_PER_SEC :: gint64 where
  "G_USEC_PER_SEC = 1000000"

section \<open>Upstream PLI: \<open>janus_streaming_rtcp_pli_send\<close> and its callers\<close>

text \<open>A PLI datagram handed to \<open>sendto\<close>: the socket and the media SSRC written into it.\<close>

datatype upstream_rtcp = Sendto_pli int "32 word"

text \<open>
  \<open>janus_streaming_rtcp_pli_send(source)\<close>. \<open>now\<close> and \<open>now2\<close> are the two readings of
  \<open>janus_get_monotonic_time\<close>, the first for the throttle test, the second stored in
  \<open>pli_latest\<close>. The compare-and-exchange on \<open>sending_pli\<close> succeeds when the flag is \<open>0\<close>.
\<close>

definition janus_streaming_rtcp_pli_send ::
  "gint64 \<Rightarrow> gint64 \<Rightarrow> 'c janus_streaming_rtp_source
    \<Rightarrow> 'c janus_streaming_rtp_source \<times> upstream_rtcp list" where
  "janus_streaming_rtcp_pli_send now now2 source =
     (if video_rtcp_fd source < 0 \<or> video_rtcp_addr_family source = 0 then (source, [])
      else if sending_pli source \<noteq> 0 then (source, [])
      else if now - pli_latest source < G_USEC_PER_SEC then
        (source\<lparr>need_pli := 1, sending_pli := 0\<rparr>, [])
      else
        (source\<lparr>need_pli := 0, pli_latest := now2, sending_pli := 0\<rparr>,
         [Sendto_pli (video_rtcp_fd source) (video_ssrc source)]))"

text \<open>The housekeeping step at the head of each iteration of the relay thread's loop.\<close>

definition relay_thread_pli ::
  "gint64 \<Rightarrow> gint64 \<Rightarrow> 'c janus_streaming_rtp_source
    \<Rightarrow> 'c janus_streaming_rtp_source \<times> upstream_rtcp list" where
  "relay_thread_pli now now2 source =
     (if need_pli source \<noteq> 0 then janus_streaming_rtcp_pli_send now now2 source
      else (source, []))"

text \<open>
  \<open>janus_streaming_incoming_rtcp\<close>, for a viewer's session on an RTP mountpoint.
  \<open>stopped\<close> is the handle's flag, \<open>vid\<close> the packet's \<open>video\<close> flag, \<open>has_fir\<close>, \<open>has_pli\<close>
  and \<open>bw\<close> what \<open>janus_rtcp_has_fir\<close>, \<open>janus_rtcp_has_pli\<close> and \<open>janus_rtcp_get_remb\<close>
  return for the packet.
\<close>

definition janus_streaming_incoming_rtcp ::
  "plugin_env \<Rightarrow> gint \<Rightarrow> ('c, 's, 'v) janus_streaming_session \<Rightarrow> bool \<Rightarrow> bool \<Rightarrow> bool
    \<Rightarrow> 64 word \<Rightarrow> gint64 \<Rightarrow> gint64 \<Rightarrow> 'c janus_streaming_rtp_source
    \<Rightarrow> 'c janus_streaming_rtp_source \<times> upstream_rtcp list" where
  "janus_streaming_incoming_rtcp env stopped session vid has_fir has_pli bw now now2 source =
     (if stopped \<noteq> 0 \<or> g_stopping env \<noteq> 0 \<or> g_initialized env = 0 then (source, [])
      else if destroyed session \<noteq> 0 \<or> stopping session \<noteq> 0 \<or> started session = 0
              \<or> paused session \<noteq> 0 then (source, [])
      else if \<not> vid \<and> audio_rtcp_fd source > - 1 \<and> audio_rtcp_addr_family source \<noteq> 0 then
        (source, [])
      else if vid \<and> video_rtcp_fd source > - 1 \<and> video_rtcp_addr_family source \<noteq> 0 then
        (let (s1, sent) =
               (if has_fir \<or> has_pli then janus_streaming_rtcp_pli_send now now2 source
                else (source, []));
             s2 = (if bw > 0 \<and> (lowest_bitrate s1 = 0 \<or> ucast (lowest_bitrate s1) > bw)
                   then s1\<lparr>lowest_bitrate := ucast bw\<rparr> else s1)
         in (s2, sent))
      else (source, []))"

section \<open>Fan-out to the viewers and to the helper threads\<close>

text \<open>
  \<open>g_list_foreach(viewers, janus_streaming_relay_rtp_packet, &packet)\<close>: the viewers are
  served one after the other on the same packet, whose buffer each call may rewrite.
  \<open>clk i\<close> is the clock reading of the call for the \<open>i\<close>-th viewer. The result gives the
  viewers, the packet, the gateway calls, and whether some call set the source's
  \<open>need_pli\<close>.
\<close>

fun relay_foreach ::
  "('c, 's, 'v) janus_lib \<Rightarrow> bool \<Rightarrow> (nat \<Rightarrow> gint64) \<Rightarrow> nat
    \<Rightarrow> ('c, 's, 'v) janus_streaming_session list \<Rightarrow> janus_streaming_rtp_relay_packet
    \<Rightarrow> ('c, 's, 'v) janus_streaming_session list \<times> janus_streaming_rtp_relay_packet
        \<times> gateway_call list \<times> bool" where
  "relay_foreach lib gateway clk i [] p = ([], p, [], False)"
| "relay_foreach lib gateway clk i (s # ss) p =
     (let r = janus_streaming_relay_rtp_packet lib gateway (clk i) s p;
          (ss1, p1, calls, np) =
             relay_foreach lib gateway clk (Suc i) ss (p\<lparr>pkt_data := out_data r\<rparr>)
      in (out_session r # ss1, p1, out_calls r @ calls, out_need_pli r \<or> np))"

text \<open>
  \<open>janus_streaming_helper_rtprtcp_packet\<close>: the clone starts zeroed (\<open>g_malloc0\<close>) and
  receives a copy of the bytes and of the fields listed in the source.
\<close>

definition zero_svc_info :: janus_vp9_svc_info where
  "zero_svc_info =
     \<lparr>svc_spatial_layer = 0, svc_temporal_layer = 0, fbit = False, pbit = False,
      dbit = False, ubit = False, bbit = False, ebit = False\<rparr>"

definition zero_packet :: janus_streaming_rtp_relay_packet where
  "zero_packet =
     \<lparr>pkt_data = None, pkt_length = 0, is_rtp = False, is_video = False, is_keyframe = False,
      simulcast = False, pkt_ssrc = (0, 0, 0), codec = JANUS_VIDEOCODEC_NONE, substream = 0,
      pkt_timestamp = 0, pkt_seq_number = 0, svc = False, svc_info = zero_svc_info,
      textdata = False\<rparr>"

definition janus_streaming_helper_rtprtcp_packet ::
  "janus_streaming_helper \<Rightarrow> janus_streaming_rtp_relay_packet \<Rightarrow> janus_streaming_helper" where
  "janus_streaming_helper_rtprtcp_packet helper packet =
     (if pkt_data packet = None \<or> pkt_length packet < 1 then helper
      else
        helper\<lparr>queued_packets := queued_packets helper @
          [zero_packet\<lparr>pkt_data := pkt_data packet, pkt_length := pkt_length packet,
             is_rtp := is_rtp packet, is_video := is_video packet,
             is_keyframe := is_keyframe packet, simulcast := simulcast packet,
             pkt_ssrc := pkt_ssrc packet, codec := codec packet,
             substream := substream packet, pkt_timestamp := pkt_timestamp packet,
             pkt_seq_number := pkt_seq_number packet\<rparr>]\<rparr>)"

text \<open>
  The state of the relay thread between two datagrams: the mountpoint, its source, the
  locals \<open>a_last_ssrc\<close> and \<open>v_last_ssrc[3]\<close>, and the local \<open>packet\<close>, which is reused
  from one datagram to the next.
\<close>

record ('c, 's, 'v) relay_thread_state =
  mp :: "('c, 's, 'v) janus_streaming_mountpoint"
  src :: "'c janus_streaming_rtp_source"
  a_last_ssrc :: "32 word"
  v_last_ssrc :: "nat \<Rightarrow> 32 word"
  packet :: janus_streaming_rtp_relay_packet

datatype recorder = Audio_recorder | Video_recorder | Data_recorder

text \<open>
  What handling one datagram leaves behind: the thread's state, the gateway calls made
  on behalf of the viewers, and the frames handed to \<open>janus_recorder_save_frame\<close>.
\<close>

record ('c, 's, 'v) relay_thread_outcome =
  th_state :: "('c, 's, 'v) relay_thread_state"
  th_calls :: "gateway_call list"
  th_saved :: "(recorder \<times> janus_buffer \<times> int) list"

definition continue_with ::
  "('c, 's, 'v) relay_thread_state \<Rightarrow> ('c, 's, 'v) relay_thread_outcome" where
  "continue_with st = \<lparr>th_state = st, th_calls = [], th_saved = []\<rparr>"

text \<open>
  The locked \<open>g_list_foreach\<close> that ends each media branch: over the viewers when there
  are no helper threads, over the helper threads otherwise.
\<close>

definition relay_on_all_sessions ::
  "('c, 's, 'v) janus_lib \<Rightarrow> bool \<Rightarrow> (nat \<Rightarrow> gint64) \<Rightarrow> ('c, 's, 'v) relay_thread_state
    \<Rightarrow> ('c, 's, 'v) relay_thread_state \<times> gateway_call list" where
  "relay_on_all_sessions lib gateway clk st =
     (if helper_threads (mp st) = 0 then
        (let (vs, p1, calls, np) = relay_foreach lib gateway clk 0 (viewers (mp st)) (packet st)
         in (st\<lparr>mp := (mp st)\<lparr>viewers := vs\<rparr>,
                src := (if np then (src st)\<lparr>need_pli := 1\<rparr> else src st),
                packet := p1\<rparr>,
             calls))
      else
        (st\<lparr>mp := (mp st)\<lparr>threads :=
             map (\<lambda>h. janus_streaming_helper_rtprtcp_packet h (packet st)) (threads (mp st))\<rparr>\<rparr>,
         []))"

section \<open>The relay thread: one datagram on the audio, video or data socket\<close>

text \<open>
  The SRTP step shared by the audio and video branches: unprotect in place when the source
  is SRTP; the first component says whether the packet is kept.
\<close>

definition after_srtp ::
  "('c, 's, 'v) janus_lib \<Rightarrow> 'c janus_streaming_rtp_source \<Rightarrow> janus_buffer \<Rightarrow> int
    \<Rightarrow> bool \<times> janus_buffer \<times> int" where
  "after_srtp lib source buffer bytes =
     (if is_srtp source then srtp_unprotect lib buffer bytes else (True, buffer, bytes))"

text \<open>
  The source-level rewrite of the two RTP branches: set the payload type, apply
  \<open>janus_rtp_header_update\<close> with the mountpoint's own context, then the skew compensation
  if enabled. The result is the skew verdict (\<open>0\<close> without compensation; negative means
  drop), the header and the context.
\<close>

definition source_rewrite_audio ::
  "('c, 's, 'v) janus_lib \<Rightarrow> gint64 \<Rightarrow> janus_buffer \<Rightarrow> ('c, 's, 'v) relay_thread_state
    \<Rightarrow> int \<times> janus_rtp_header \<times> 'c janus_rtp_switching_context" where
  "source_rewrite_audio lib now buffer st =
     (let h0 = (hdr buffer)\<lparr>ptype := audio_pt (codecs (mp st))\<rparr>;
          (h1, c1) = janus_rtp_header_update lib h0 (src_context (src st) 0) False
      in if askew (src st) then janus_rtp_skew_compensate_audio lib h1 c1 now
         else (0, h1, c1))"

definition source_rewrite_video ::
  "('c, 's, 'v) janus_lib \<Rightarrow> gint64 \<Rightarrow> nat \<Rightarrow> janus_buffer \<Rightarrow> ('c, 's, 'v) relay_thread_state
    \<Rightarrow> int \<times> janus_rtp_header \<times> 'c janus_rtp_switching_context" where
  "source_rewrite_video lib now index buffer st =
     (let h0 = (hdr buffer)\<lparr>ptype := video_pt (codecs (mp st))\<rparr>;
          (h1, c1) = janus_rtp_header_update lib h0 (src_context (src st) index) True
      in if vskew (src st) then janus_rtp_skew_compensate_video lib h1 c1 now
         else (0, h1, c1))"

text \<open>
  The audio branch from \<open>Relay on all sessions\<close> on: payload type, source-level rewrite,
  skew compensation, recorder, and the fan-out guarded by \<open>mountpoint->enabled\<close>.
\<close>

definition audio_deliver ::
  "('c, 's, 'v) janus_lib \<Rightarrow> bool \<Rightarrow> (nat \<Rightarrow> gint64) \<Rightarrow> gint64 \<Rightarrow> 32 word \<Rightarrow> int
    \<Rightarrow> janus_buffer \<Rightarrow> ('c, 's, 'v) relay_thread_state \<Rightarrow> ('c, 's, 'v) relay_thread_outcome" where
  "audio_deliver lib gateway clk now ssrc_l bytes buffer st =
     (let (ret, h2, c2) = source_rewrite_audio lib now buffer st;
          st1 = st\<lparr>src := (src st)\<lparr>src_context := (src_context (src st))(0 := c2)\<rparr>\<rparr>;
          pk = (packet st)\<lparr>pkt_data := Some (buffer\<lparr>hdr := h2\<rparr>), pkt_length := bytes,
                 is_rtp := True, is_video := False, is_keyframe := False\<rparr>
      in if ret < 0 then continue_with (st1\<lparr>packet := pk\<rparr>)
         else
           (let h3 = (if arc (src st1) then h2\<lparr>ssrc := htonl (ucast (mp_id (mp st1)))\<rparr> else h2);
                saved = (if arc (src st1) then [(Audio_recorder, buffer\<lparr>hdr := h3\<rparr>, bytes)]
                         else [])
            in if enabled (mp st1) then
                 (let h4 = h3\<lparr>ssrc := htonl ssrc_l\<rparr>;
                      pk1 = pk\<lparr>pkt_data := Some (buffer\<lparr>hdr := h4\<rparr>),
                              pkt_timestamp := ntohl (timestamp h4),
                              pkt_seq_number := ntohs (seq_number h4)\<rparr>;
                      (st2, calls) = relay_on_all_sessions lib gateway clk (st1\<lparr>packet := pk1\<rparr>)
                  in \<lparr>th_state = st2, th_calls = calls, th_saved = saved\<rparr>)
               else
                 \<lparr>th_state = st1\<lparr>packet := pk\<lparr>pkt_data := Some (buffer\<lparr>hdr := h3\<rparr>)\<rparr>\<rparr>,
                  th_calls = [], th_saved = saved\<rparr>))"

text \<open>
  The audio branch. \<open>now\<close> is the clock reading taken before \<open>recvfrom\<close>, \<open>bytes\<close> its
  result and \<open>buffer\<close> the datagram read.
\<close>

definition relay_thread_audio ::
  "('c, 's, 'v) janus_lib \<Rightarrow> bool \<Rightarrow> (nat \<Rightarrow> gint64) \<Rightarrow> gint64 \<Rightarrow> int \<Rightarrow> janus_buffer
    \<Rightarrow> ('c, 's, 'v) relay_thread_state \<Rightarrow> ('c, 's, 'v) relay_thread_outcome" where
  "relay_thread_audio lib gateway clk now bytes buffer st0 =
     (let st = st0\<lparr>mp := (mp st0)\<lparr>active := True\<rparr>\<rparr>
      in if bytes < 0 \<or> \<not> janus_is_rtp lib buffer bytes then continue_with st
         else
           (let ssrc_l = ntohl (ssrc (hdr buffer))
            in if rtp_collision (src st) > 0 \<and> a_last_ssrc st \<noteq> 0 \<and> ssrc_l \<noteq> a_last_ssrc st
                    \<and> now - last_received_audio (src st) < 1000 * rtp_collision (src st)
               then continue_with st
               else
                 (let st1 = st\<lparr>src := (src st)\<lparr>last_received_audio := now\<rparr>\<rparr>;
                      st2 = (if ssrc_l \<noteq> a_last_ssrc st1
                             then st1\<lparr>src := (src st1)\<lparr>audio_ssrc := ssrc_l\<rparr>,
                                     a_last_ssrc := ssrc_l\<rparr>
                             else st1)
                  in if \<not> enabled (mp st2) \<and> \<not> arc (src st2) then continue_with st2
                     else
                       (let (ok, buffer1, bytes1) = after_srtp lib (src st2) buffer bytes
                        in if \<not> ok then continue_with st2
                           else audio_deliver lib gateway clk now ssrc_l bytes1 buffer1 st2))))"

text \<open>The packet stored in the keyframe buffer: a zeroed packet holding a copy of the datagram.\<close>

definition keyframe_packet ::
  "int \<Rightarrow> int \<Rightarrow> janus_buffer \<Rightarrow> 32 word \<Rightarrow> janus_streaming_rtp_relay_packet" where
  "keyframe_packet vpt bytes buffer ts =
     zero_packet\<lparr>
       pkt_data := Some (buffer\<lparr>hdr := (hdr buffer)\<lparr>ssrc := ucast (htons 1), ptype := vpt\<rparr>\<rparr>),
       is_rtp := True, is_video := True, is_keyframe := True, pkt_length := bytes,
       pkt_timestamp := ts, pkt_seq_number := ntohs (seq_number (hdr buffer))\<rparr>"

definition is_keyframe_for ::
  "('c, 's, 'v) janus_lib \<Rightarrow> janus_videocodec \<Rightarrow> bytes \<Rightarrow> int \<Rightarrow> bool" where
  "is_keyframe_for lib vc payload plen =
     (case vc of
        JANUS_VIDEOCODEC_VP8 \<Rightarrow> janus_vp8_is_keyframe lib payload plen
      | JANUS_VIDEOCODEC_VP9 \<Rightarrow> janus_vp9_is_keyframe lib (Some payload) plen
      | JANUS_VIDEOCODEC_H264 \<Rightarrow> janus_h264_is_keyframe lib payload plen
      | JANUS_VIDEOCODEC_AV1 \<Rightarrow> janus_av1_is_keyframe lib payload plen
      | JANUS_VIDEOCODEC_H265 \<Rightarrow> janus_h265_is_keyframe lib payload plen
      | JANUS_VIDEOCODEC_NONE \<Rightarrow> False)"

text \<open>
  The keyframe bookkeeping of the video branch, on the datagram as decrypted: complete the
  group in progress, extend it, or start a new one.
\<close>

definition update_keyframe_buffer ::
  "('c, 's, 'v) janus_lib \<Rightarrow> janus_streaming_codecs \<Rightarrow> int \<Rightarrow> janus_buffer
    \<Rightarrow> janus_streaming_rtp_keyframe \<Rightarrow> janus_streaming_rtp_keyframe" where
  "update_keyframe_buffer lib cds bytes buffer kf =
     (if \<not> kf_enabled kf then kf
      else
        (let ts = ntohl (timestamp (hdr buffer))
         in if temp_ts kf > 0 \<and> ts \<noteq> temp_ts kf then
              kf\<lparr>temp_ts := 0, latest_keyframe := temp_keyframe kf, temp_keyframe := []\<rparr>
            else if ts = temp_ts kf then
              kf\<lparr>temp_keyframe :=
                   temp_keyframe kf @ [keyframe_packet (video_pt cds) bytes buffer (temp_ts kf)]\<rparr>
            else
              (case janus_rtp_payload lib buffer bytes of
                 None \<Rightarrow> kf
               | Some (off, plen) \<Rightarrow>
                   if is_keyframe_for lib (video_codec cds) (drop off (body buffer)) plen then
                     kf\<lparr>temp_ts := ts,
                        temp_keyframe :=
                          temp_keyframe kf @ [keyframe_packet (video_pt cds) bytes buffer ts]\<rparr>
                   else kf)))"

text \<open>The video branch from \<open>Relay on all sessions\<close> on, for the socket \<open>video_fd[index]\<close>.\<close>

definition video_deliver ::
  "('c, 's, 'v) janus_lib \<Rightarrow> bool \<Rightarrow> (nat \<Rightarrow> gint64) \<Rightarrow> gint64 \<Rightarrow> nat \<Rightarrow> 32 word \<Rightarrow> int
    \<Rightarrow> janus_buffer \<Rightarrow> ('c, 's, 'v) relay_thread_state \<Rightarrow> ('c, 's, 'v) relay_thread_outcome" where
  "video_deliver lib gateway clk now index ssrc_l bytes buffer st =
     (let pk0 = (packet st)\<lparr>pkt_data := Some buffer, pkt_length := bytes, is_rtp := True,
                  is_video := True, is_keyframe := False, simulcast := src_simulcast (src st),
                  substream := int index, codec := video_codec (codecs (mp st)), svc := False\<rparr>;
          pk1 = (if src_svc (src st) then
                   (case janus_rtp_payload lib buffer bytes of
                      None \<Rightarrow> pk0
                    | Some (off, plen) \<Rightarrow>
                        (let (res, found, info) =
                               janus_vp9_parse_svc lib (drop off (body buffer)) plen
                         in if res = 0 then pk0\<lparr>svc := found, svc_info := info\<rparr>
                            else pk0\<lparr>svc_info := info\<rparr>))
                 else pk0);
          (ret, h2, c2) = source_rewrite_video lib now index buffer st;
          st1 = st\<lparr>src := (src st)\<lparr>src_context := (src_context (src st))(index := c2)\<rparr>\<rparr>;
          pk = pk1\<lparr>pkt_data := Some (buffer\<lparr>hdr := h2\<rparr>)\<rparr>
      in if ret < 0 then continue_with (st1\<lparr>packet := pk\<rparr>)
         else
           (let rec = (index = 0 \<and> vrc (src st1));
                h3 = (if rec then h2\<lparr>ssrc := htonl (ucast (mp_id (mp st1)))\<rparr> else h2);
                saved = (if rec then [(Video_recorder, buffer\<lparr>hdr := h3\<rparr>, bytes)] else [])
            in if enabled (mp st1) then
                 (let h4 = h3\<lparr>ssrc := htonl ssrc_l\<rparr>;
                      pk2 = pk\<lparr>pkt_data := Some (buffer\<lparr>hdr := h4\<rparr>),
                              pkt_timestamp := ntohl (timestamp h4),
                              pkt_seq_number := ntohs (seq_number h4)\<rparr>;
                      pk3 = (if src_simulcast (src st1)
                             then pk2\<lparr>pkt_ssrc := (v_last_ssrc st1 0, v_last_ssrc st1 1,
                                                     v_last_ssrc st1 2)\<rparr>
                             else pk2);
                      (st2, calls) = relay_on_all_sessions lib gateway clk (st1\<lparr>packet := pk3\<rparr>)
                  in \<lparr>th_state = st2, th_calls = calls, th_saved = saved\<rparr>)
               else
                 \<lparr>th_state = st1\<lparr>packet := pk\<lparr>pkt_data := Some (buffer\<lparr>hdr := h3\<rparr>)\<rparr>\<rparr>,
                  th_calls = [], th_saved = saved\<rparr>))"

definition relay_thread_video ::
  "('c, 's, 'v) janus_lib \<Rightarrow> bool \<Rightarrow> (nat \<Rightarrow> gint64) \<Rightarrow> gint64 \<Rightarrow> nat \<Rightarrow> int \<Rightarrow> janus_buffer
    \<Rightarrow> ('c, 's, 'v) relay_thread_state \<Rightarrow> ('c, 's, 'v) relay_thread_outcome" where
  "relay_thread_video lib gateway clk now index bytes buffer st0 =
     (let st = st0\<lparr>mp := (mp st0)\<lparr>active := True\<rparr>\<rparr>
      in if bytes < 0 \<or> \<not> janus_is_rtp lib buffer bytes then continue_with st
         else
           (let ssrc_l = ntohl (ssrc (hdr buffer))
            in if rtp_collision (src st) > 0 \<and> v_last_ssrc st index \<noteq> 0
                    \<and> ssrc_l \<noteq> v_last_ssrc st index
                    \<and> now - last_received_video (src st) < 1000 * rtp_collision (src st)
               then continue_with st
               else
                 (let st1 = st\<lparr>src := (src st)\<lparr>last_received_video := now\<rparr>\<rparr>;
                      st2 = (if ssrc_l \<noteq> v_last_ssrc st1 index
                             then st1\<lparr>v_last_ssrc := (v_last_ssrc st1)(index := ssrc_l),
                                     src := (if index = 0 then (src st1)\<lparr>video_ssrc := ssrc_l\<rparr>
                                             else src st1)\<rparr>
                             else st1);
                      (ok, buffer1, bytes1) = after_srtp lib (src st2) buffer bytes
                  in if \<not> ok then continue_with st2
                     else
                       (let st3 = st2\<lparr>src := (src st2)\<lparr>keyframe :=
                                    update_keyframe_buffer lib (codecs (mp st2)) bytes1 buffer1
                                      (keyframe (src st2))\<rparr>\<rparr>
                        in if \<not> enabled (mp st3) \<and> \<not> vrc (src st3) then continue_with st3
                           else video_deliver lib gateway clk now index ssrc_l bytes1 buffer1 st3))))"

text \<open>
  The data branch. \<open>now\<close> is the clock reading stored in \<open>last_received_data\<close>. With
  \<open>buffermsg\<close> set the branch builds the clone \<open>pkt\<close> of the message; no statement of the
  branch stores it.
\<close>

definition relay_thread_data ::
  "('c, 's, 'v) janus_lib \<Rightarrow> bool \<Rightarrow> (nat \<Rightarrow> gint64) \<Rightarrow> gint64 \<Rightarrow> int \<Rightarrow> janus_buffer
    \<Rightarrow> ('c, 's, 'v) relay_thread_state \<Rightarrow> ('c, 's, 'v) relay_thread_outcome" where
  "relay_thread_data lib gateway clk now bytes buffer st0 =
     (let st = st0\<lparr>mp := (mp st0)\<lparr>active := True\<rparr>,
                  src := (src st0)\<lparr>last_received_data := now\<rparr>\<rparr>
      in if bytes < 1 then continue_with st
         else if \<not> enabled (mp st) \<and> \<not> drc (src st) then continue_with st
         else
           (let pk = (packet st)\<lparr>pkt_data := Some buffer, pkt_length := bytes, is_rtp := False,
                       textdata := src_textdata (src st)\<rparr>;
                saved = (if drc (src st) then [(Data_recorder, buffer, bytes)] else [])
            in if enabled (mp st) then
                 (let pkt = zero_packet\<lparr>pkt_data := Some buffer, pkt_length := bytes\<rparr>;
                      pk1 = (if buffermsg (src st) then pk\<lparr>is_rtp := False\<rparr> else pk);
                      (st1, calls) = relay_on_all_sessions lib gateway clk (st\<lparr>packet := pk1\<rparr>)
                  in \<lparr>th_state = st1\<lparr>packet := (packet st1)\<lparr>pkt_data := None\<rparr>\<rparr>,
                      th_calls = calls, th_saved = saved\<rparr>)
               else
                 \<lparr>th_state = st\<lparr>packet := pk\<lparr>pkt_data := None\<rparr>\<rparr>,
                  th_calls = [], th_saved = saved\<rparr>))"

section \<open>Viewer callbacks: media setup, data channel ready, hangup\<close>

text \<open>
  The replay loop of \<open>janus_streaming_setup_media\<close> over \<open>latest_keyframe\<close>: each stored
  packet is handed to \<open>janus_streaming_relay_rtp_packet\<close> for the new viewer.
\<close>

fun replay_keyframe ::
  "('c, 's, 'v) janus_lib \<Rightarrow> bool \<Rightarrow> (nat \<Rightarrow> gint64) \<Rightarrow> nat
    \<Rightarrow> ('c, 's, 'v) janus_streaming_session \<Rightarrow> janus_streaming_rtp_relay_packet list
    \<Rightarrow> ('c, 's, 'v) janus_streaming_session \<times> janus_streaming_rtp_relay_packet list
        \<times> gateway_call list \<times> bool" where
  "replay_keyframe lib gateway clk i s [] = (s, [], [], False)"
| "replay_keyframe lib gateway clk i s (pkt # rest) =
     (let r = janus_streaming_relay_rtp_packet lib gateway (clk i) s pkt;
          (s1, rest1, calls, np) = replay_keyframe lib gateway clk (Suc i) (out_session r) rest
      in (s1, pkt\<lparr>pkt_data := out_data r\<rparr> # rest1, out_calls r @ calls, out_need_pli r \<or> np))"

record ('c, 's, 'v) setup_outcome =
  su_session :: "('c, 's, 'v) janus_streaming_session option"
  su_source :: "'c janus_streaming_rtp_source"
  su_calls :: "gateway_call list"
  su_rtcp :: "upstream_rtcp list"

text \<open>
  \<open>janus_streaming_setup_media(handle)\<close>. \<open>hnd\<close> identifies the handle, \<open>session\<close> is the
  result of \<open>janus_streaming_lookup_session\<close>, \<open>kind\<close> and \<open>source\<close> are the
  \<open>streaming_source\<close> and \<open>source\<close> of the session's mountpoint; \<open>clk\<close> gives the clock
  readings of the relay calls, \<open>now\<close> and \<open>now2\<close> those of the PLI helper.
\<close>

definition janus_streaming_setup_media ::
  "('c, 's, 'v) janus_lib \<Rightarrow> plugin_env \<Rightarrow> (nat \<Rightarrow> gint64) \<Rightarrow> gint64 \<Rightarrow> gint64 \<Rightarrow> nat
    \<Rightarrow> ('c, 's, 'v) janus_streaming_session option \<Rightarrow> janus_streaming_source
    \<Rightarrow> 'c janus_streaming_rtp_source \<Rightarrow> ('c, 's, 'v) setup_outcome" where
  "janus_streaming_setup_media lib env clk now now2 hnd session kind source =
     (if g_stopping env \<noteq> 0 \<or> g_initialized env = 0 then
        \<lparr>su_session = session, su_source = source, su_calls = [], su_rtcp = []\<rparr>
      else
        (case session of
           None \<Rightarrow> \<lparr>su_session = None, su_source = source, su_calls = [], su_rtcp = []\<rparr>
         | Some s0 \<Rightarrow>
             if destroyed s0 \<noteq> 0 then
               \<lparr>su_session = Some s0, su_source = source, su_calls = [], su_rtcp = []\<rparr>
             else
               (let s1 = s0\<lparr>hangingup := 0,
                            rtp_context := janus_rtp_switching_context_reset lib (rtp_context s0)\<rparr>
                in if mountpoint s1 = None then
                     \<lparr>su_session = Some s1, su_source = source, su_calls = [], su_rtcp = []\<rparr>
                   else
                     (let (s4, src4, calls4, rtcp4) =
                            (if kind = janus_streaming_source_rtp then
                               (let (s2, latest2, calls2, np2) =
                                      (if kf_enabled (keyframe source) then
                                         replay_keyframe lib (g_gateway env) clk 0 s1
                                           (latest_keyframe (keyframe source))
                                       else (s1, latest_keyframe (keyframe source), [], False));
                                    src2 = source\<lparr>keyframe :=
                                             (keyframe source)\<lparr>latest_keyframe := latest2\<rparr>\<rparr>;
                                    r3 = (if buffermsg src2 then
                                            (case last_msg src2 of
                                               None \<Rightarrow> None
                                             | Some m \<Rightarrow>
                                                 Some (janus_streaming_relay_rtp_packet lib
                                                        (g_gateway env)
                                                        (clk (length (latest_keyframe (keyframe source))))
                                                        s2 m))
                                          else None);
                                    s3 = (case r3 of None \<Rightarrow> s2 | Some r \<Rightarrow> out_session r);
                                    src3 = (case r3 of
                                              None \<Rightarrow> src2
                                            | Some r \<Rightarrow>
                                                src2\<lparr>last_msg :=
                                                  map_option (\<lambda>m. m\<lparr>pkt_data := out_data r\<rparr>)
                                                    (last_msg src2)\<rparr>);
                                    calls3 = (case r3 of None \<Rightarrow> [] | Some r \<Rightarrow> out_calls r);
                                    np3 = (case r3 of None \<Rightarrow> False | Some r \<Rightarrow> out_need_pli r);
                                    src3a = (if np2 \<or> np3 then src3\<lparr>need_pli := 1\<rparr> else src3);
                                    (src5, rtcp5) = janus_streaming_rtcp_pli_send now now2 src3a
                                in (s3, src5, calls2 @ calls3, rtcp5))
                             else (s1, source, [], []))
                      in \<lparr>su_session = Some (s4\<lparr>started := 1\<rparr>),
                          su_source = src4,
                          su_calls = calls4 @ [Push_event hnd (Ev_status ''started'')],
                          su_rtcp = rtcp4\<rparr>))))"

text \<open>
  \<open>janus_streaming_data_ready(handle)\<close>, for a handle that is not \<open>NULL\<close>: \<open>stopped\<close> is
  the handle's flag and \<open>session\<close> its \<open>plugin_handle\<close>. The compare-and-exchange sets
  \<open>dataready\<close> to \<open>1\<close> when it is \<open>0\<close>.
\<close>

definition janus_streaming_data_ready ::
  "plugin_env \<Rightarrow> gint \<Rightarrow> ('c, 's, 'v) janus_streaming_session option
    \<Rightarrow> ('c, 's, 'v) janus_streaming_session option" where
  "janus_streaming_data_ready env stopped session =
     (if stopped \<noteq> 0 \<or> g_stopping env \<noteq> 0 \<or> g_initialized env = 0 \<or> \<not> g_gateway env
      then session
      else
        (case session of
           None \<Rightarrow> None
         | Some s \<Rightarrow>
             if destroyed s \<noteq> 0 \<or> hangingup s \<noteq> 0 then Some s
             else if dataready s = 0 then Some (s\<lparr>dataready := 1\<rparr>)
             else Some s))"

text \<open>
  What \<open>janus_streaming_hangup_media_internal\<close> does to the session's own fields, the
  detaching from the mountpoint and its helper threads left aside. The compare-and-exchange
  on \<open>hangingup\<close> lets one hangup through.
\<close>

definition janus_streaming_hangup_media_internal ::
  "('c, 's, 'v) janus_lib \<Rightarrow> plugin_env \<Rightarrow> ('s janus_rtp_simulcasting_context
      \<Rightarrow> 's janus_rtp_simulcasting_context) \<Rightarrow> ('v \<Rightarrow> 'v)
    \<Rightarrow> ('c, 's, 'v) janus_streaming_session option
    \<Rightarrow> ('c, 's, 'v) janus_streaming_session option" where
  "janus_streaming_hangup_media_internal lib env sim_reset vp8_reset session =
     (if g_stopping env \<noteq> 0 \<or> g_initialized env = 0 then session
      else
        (case session of
           None \<Rightarrow> None
         | Some s \<Rightarrow>
             if destroyed s \<noteq> 0 then Some s
             else if hangingup s \<noteq> 0 then Some s
             else
               Some (s\<lparr>hangingup := 1, dataready := 0, stopping := 1, started := 0, paused := 0,
                        rtp_context := janus_rtp_switching_context_reset lib (rtp_context s),
                        sim_context := sim_reset (sim_context s),
                        vp8_context := vp8_reset (vp8_context s),
                        spatial_layer := - 1, target_spatial_layer := 2,
                        last_spatial_layer :=
                          (last_spatial_layer s)(0 := 0, 1 := 0, 2 := 0),
                        temporal_layer := - 1, target_temporal_layer := 2,
                        mountpoint := None\<rparr>)))"

section \<open>Binding listener sockets: \<open>janus_streaming_create_fd\<close>\<close>

text \<open>
  The interface restriction as the function tests it: \<open>Address_null\<close> when
  \<open>janus_network_address_is_null\<close> holds, otherwise the address family.
\<close>

datatype janus_network_address = Address_null | Address_inet | Address_inet6 | Address_other

text \<open>
  The operating system as seen by one call: what \<open>socket\<close> returns, whether each
  \<open>setsockopt\<close> succeeds, and for each port whether \<open>bind\<close> succeeds.
\<close>

record fd_env =
  socket_result :: int
  mcast_all_ok :: bool
  add_membership_ok :: bool
  reuseaddr_ok :: bool
  v6only_ok :: bool
  bind_ok :: "16 word \<Rightarrow> bool"

text \<open>The globals \<open>rtp_range_min\<close>, \<open>rtp_range_max\<close> and \<open>rtp_range_slider\<close>.\<close>

record port_range =
  rtp_range_min :: "16 word"
  rtp_range_max :: "16 word"
  rtp_range_slider :: "16 word"

text \<open>
  The loop state at the head of an iteration: \<open>port\<close>, \<open>rtp_port_next\<close>, \<open>rtp_port_wrap\<close>,
  and the ports on which \<open>bind\<close> has been attempted so far. \<open>fd\<close> is \<open>-1\<close> there: it is
  initialised so, and the only paths back to the head are the \<open>continue\<close> of the address
  selection, taken before any socket exists, and a failed \<open>bind\<close>, which resets it.
\<close>

type_synonym fd_loop_state = "int \<times> 16 word \<times> bool \<times> 16 word list"

text \<open>
  How the loop is left: the descriptor returned, the new value of the global slider if it
  is assigned, and the ports on which \<open>bind\<close> was attempted.
\<close>

type_synonym fd_exit = "int \<times> 16 word option \<times> 16 word list"

text \<open>
  The end of an iteration: create the socket if there is none, bind it to \<open>port\<close>.
  \<open>inet\<close> says that \<open>family\<close> is \<open>AF_INET\<close>.
\<close>

definition create_fd_bind ::
  "fd_env \<Rightarrow> bool \<Rightarrow> int \<Rightarrow> bool \<Rightarrow> fd_loop_state \<Rightarrow> fd_exit + fd_loop_state" where
  "create_fd_bind env use_range fd inet st =
     (let (port, rtp_port_next, rtp_port_wrap, binds) = st;
          fd1 = (if fd = - 1 then socket_result env else fd)
      in if fd = - 1 \<and> fd1 < 0 then Inl (fd1, None, binds)
         else if fd = - 1 \<and> \<not> inet \<and> \<not> v6only_ok env then Inl (fd1, None, binds)
         else if \<not> bind_ok env (word_of_int port) then
           (if \<not> use_range then Inl (- 1, None, binds @ [word_of_int port])
            else Inr (port, rtp_port_next, rtp_port_wrap, binds @ [word_of_int port]))
         else
           Inl (fd1, (if use_range then Some (word_of_int port) else None),
                binds @ [word_of_int port]))"

text \<open>
  One iteration of the \<open>while(1)\<close> loop: \<open>Inl\<close> when the loop is left (by \<open>break\<close> or
  \<open>return\<close>), \<open>Inr\<close> with the next state when it goes round again. \<open>mcast\<close> is
  \<open>IN_MULTICAST(ntohl(mcast))\<close>.
\<close>

definition create_fd_iteration ::
  "fd_env \<Rightarrow> bool \<Rightarrow> janus_network_address \<Rightarrow> 16 word \<Rightarrow> 16 word \<Rightarrow> 16 word \<Rightarrow> bool
    \<Rightarrow> fd_loop_state \<Rightarrow> fd_exit + fd_loop_state" where
  "create_fd_iteration env mcast iface rmin rmax rtp_port_start use_range st =
     (let (port, rtp_port_next, rtp_port_wrap, binds) = st
      in if use_range \<and> rtp_port_wrap \<and> rtp_port_next \<ge> rtp_port_start then
           Inl (- 1, None, binds)
         else if \<not> use_range then
           (if mcast then
              (if socket_result env < 0 then Inl (socket_result env, None, binds)
               else if \<not> mcast_all_ok env then Inl (- 1, None, binds)
               else if iface \<noteq> Address_null \<and> iface \<noteq> Address_inet then Inl (- 1, None, binds)
               else if \<not> add_membership_ok env then Inl (- 1, None, binds)
               else if \<not> reuseaddr_ok env then Inl (- 1, None, binds)
               else create_fd_bind env use_range (socket_result env) True st)
            else if iface = Address_null then create_fd_bind env use_range (- 1) False st
            else if iface = Address_inet then create_fd_bind env use_range (- 1) True st
            else if iface = Address_inet6 then create_fd_bind env use_range (- 1) False st
            else Inr st)
         else
           (let st1 = (uint rtp_port_next,
                       (if rtp_port_next < rmax then rtp_port_next + 1 else rmin),
                       (if rtp_port_next < rmax then rtp_port_wrap else True),
                       binds)
            in if mcast \<or> iface = Address_null then create_fd_bind env use_range (- 1) False st1
               else if iface = Address_inet then create_fd_bind env use_range (- 1) True st1
               else if iface = Address_inet6 then create_fd_bind env use_range (- 1) False st1
               else Inr st1))"

partial_function (option) create_fd_loop ::
  "fd_env \<Rightarrow> bool \<Rightarrow> janus_network_address \<Rightarrow> 16 word \<Rightarrow> 16 word \<Rightarrow> 16 word \<Rightarrow> bool
    \<Rightarrow> fd_loop_state \<Rightarrow> fd_exit option" where
  "create_fd_loop env mcast iface rmin rmax rtp_port_start use_range st =
     (case create_fd_iteration env mcast iface rmin rmax rtp_port_start use_range st of
        Inl r \<Rightarrow> Some r
      | Inr st1 \<Rightarrow> create_fd_loop env mcast iface rmin rmax rtp_port_start use_range st1)"

record create_fd_outcome =
  cf_fd :: int
  cf_slider :: "16 word"
  cf_binds :: "16 word list"

text \<open>
  \<open>janus_streaming_create_fd(port, mcast, iface, ...)\<close>: \<open>None\<close> when the loop does not
  end, otherwise the descriptor returned (\<open>-1\<close> on failure), the global slider after the
  call and the ports on which \<open>bind\<close> was attempted, in order.
\<close>

definition janus_streaming_create_fd ::
  "fd_env \<Rightarrow> port_range \<Rightarrow> int \<Rightarrow> bool \<Rightarrow> janus_network_address \<Rightarrow> create_fd_outcome option" where
  "janus_streaming_create_fd env rng port mcast iface =
     map_option
       (\<lambda>(fd, sl, binds).
          \<lparr>cf_fd = fd,
           cf_slider = (case sl of None \<Rightarrow> rtp_range_slider rng | Some p \<Rightarrow> p),
           cf_binds = binds\<rparr>)
       (create_fd_loop env mcast iface (rtp_range_min rng) (rtp_range_max rng)
          (rtp_range_slider rng) (port = 0) (port, rtp_range_slider rng, False, []))"

text \<open>
  \<open>janus_streaming_allocate_port_pair\<close>: its loop state is \<open>rtp_port_next\<close>,
  \<open>rtp_port_wrap\<close>, the global slider, and the pairs of ports tried so far. The result is
  the return value, the ports written to \<open>ports[2]\<close>, the slider and the pairs tried.
\<close>

type_synonym pair_loop_state = "16 word \<times> bool \<times> 16 word \<times> (int \<times> int) list"

partial_function (option) allocate_port_pair_loop ::
  "fd_env \<Rightarrow> bool \<Rightarrow> janus_network_address \<Rightarrow> 16 word \<Rightarrow> 16 word \<Rightarrow> 16 word
    \<Rightarrow> pair_loop_state \<Rightarrow> (int \<times> (int \<times> int) option \<times> 16 word \<times> (int \<times> int) list) option" where
  "allocate_port_pair_loop env mcast iface rmin rmax rtp_port_start st =
     (let (rtp_port_next, rtp_port_wrap, slider, tried) = st
      in if rtp_port_wrap \<and> rtp_port_next \<ge> rtp_port_start then Some (- 1, None, slider, tried)
         else
           (let rtp_port = uint rtp_port_next;
                rtcp_port = rtp_port + 1;
                next1 = (if unat rtp_port_next + 2 < unat rmax then rtp_port_next + 2 else rmin);
                wrap1 = (if unat rtp_port_next + 2 < unat rmax then rtp_port_wrap else True);
                tried1 = tried @ [(rtp_port, rtcp_port)]
            in case janus_streaming_create_fd env
                      \<lparr>rtp_range_min = rmin, rtp_range_max = rmax, rtp_range_slider = slider\<rparr>
                      rtp_port mcast iface of
                 None \<Rightarrow> None
               | Some r1 \<Rightarrow>
                   if cf_fd r1 \<noteq> - 1 then
                     (case janus_streaming_create_fd env
                             \<lparr>rtp_range_min = rmin, rtp_range_max = rmax,
                              rtp_range_slider = cf_slider r1\<rparr>
                             rtcp_port mcast iface of
                        None \<Rightarrow> None
                      | Some r2 \<Rightarrow>
                          if cf_fd r2 \<noteq> - 1 then
                            Some (0, Some (rtp_port, rtcp_port), next1, tried1)
                          else
                            allocate_port_pair_loop env mcast iface rmin rmax rtp_port_start
                              (next1, wrap1, cf_slider r2, tried1))
                   else
                     allocate_port_pair_loop env mcast iface rmin rmax rtp_port_start
                       (next1, wrap1, cf_slider r1, tried1)))"

definition janus_streaming_allocate_port_pair ::
  "fd_env \<Rightarrow> port_range \<Rightarrow> bool \<Rightarrow> janus_network_address
    \<Rightarrow> (int \<times> (int \<times> int) option \<times> 16 word \<times> (int \<times> int) list) option" where
  "janus_streaming_allocate_port_pair env rng mcast iface =
     (let rtp_port_next =
            (if unat (rtp_range_slider rng) mod 2 \<noteq> 0 then rtp_range_slider rng + 1
             else rtp_range_slider rng)
      in allocate_port_pair_loop env mcast iface (rtp_range_min rng) (rtp_range_max rng)
           rtp_port_next (rtp_port_next, False, rtp_range_slider rng, []))"

section \<open>Notions used to state the properties\<close>

text \<open>
  The switching context a viewer's rewrite starts from: on the simulcast path the one the
  simulcast processing leaves, on every other path the session's own.
\<close>

definition viewer_context ::
  "('c, 's, 'v) janus_lib \<Rightarrow> ('c, 's, 'v) janus_streaming_session
    \<Rightarrow> janus_streaming_rtp_relay_packet \<Rightarrow> janus_buffer \<Rightarrow> 'c janus_rtp_switching_context" where
  "viewer_context lib s p buf =
     (if is_video p \<and> \<not> svc p \<and> simulcast p
      then snd (snd (janus_rtp_simulcasting_context_process_rtp lib (sim_context s) buf
                   (pkt_length p) (pkt_ssrc p) (codec p) (rtp_context s)))
      else rtp_context s)"

text \<open>
  The header \<open>b\<close> seen by the relay call is the rewrite of the buffer's header under the
  context \<open>ctx\<close>, the session keeps the context of that rewrite, and the buffer is left
  with the timestamp and sequence number saved in the packet.
\<close>

definition rewritten_for ::
  "('c, 's, 'v) janus_lib \<Rightarrow> 'c janus_rtp_switching_context \<Rightarrow> bool \<Rightarrow> janus_buffer
    \<Rightarrow> janus_streaming_rtp_relay_packet \<Rightarrow> janus_buffer \<Rightarrow> ('c, 's, 'v) relay_outcome \<Rightarrow> bool" where
  "rewritten_for lib ctx vid buf p b r \<longleftrightarrow>
     timestamp (hdr b) = timestamp (fst (janus_rtp_header_update lib (hdr buf) ctx vid))
   \<and> seq_number (hdr b) = seq_number (fst (janus_rtp_header_update lib (hdr buf) ctx vid))
   \<and> rtp_context (out_session r) = snd (janus_rtp_header_update lib (hdr buf) ctx vid)
   \<and> (\<exists>b'. out_data r = Some b' \<and> timestamp (hdr b') = htonl (pkt_timestamp p)
           \<and> seq_number (hdr b') = htons (pkt_seq_number p))"


text \<open>
  The states a session goes through under a sequence of \<open>data_ready\<close> callbacks, each
  with the global flags and the handle's \<open>stopped\<close> flag of its moment; the number of
  times \<open>dataready\<close> goes from \<open>0\<close> to non-zero along a sequence of states; and the
  condition under which a callback gets past the guards of the function.
\<close>

fun data_ready_trace ::
  "('c, 's, 'v) janus_streaming_session \<Rightarrow> (plugin_env \<times> gint) list
    \<Rightarrow> ('c, 's, 'v) janus_streaming_session list" where
  "data_ready_trace s [] = [s]"
| "data_ready_trace s ((env, stopped) # cs) =
     s # (case janus_streaming_data_ready env stopped (Some s) of
            None \<Rightarrow> []
          | Some s1 \<Rightarrow> data_ready_trace s1 cs)"

fun rising_edges :: "('c, 's, 'v) janus_streaming_session list \<Rightarrow> nat" where
  "rising_edges (a # b # rest) =
     (if dataready a = 0 \<and> dataready b \<noteq> 0 then 1 else 0) + rising_edges (b # rest)"
| "rising_edges [a] = 0"
| "rising_edges [] = 0"

definition data_ready_passes ::
  "plugin_env \<Rightarrow> gint \<Rightarrow> ('c, 's, 'v) janus_streaming_session \<Rightarrow> bool" where
  "data_ready_passes env stopped s \<longleftrightarrow>
     stopped = 0 \<and> g_stopping env = 0 \<and> g_initialized env \<noteq> 0 \<and> g_gateway env
     \<and> destroyed s = 0 \<and> hangingup s = 0"

text \<open>
  The conditions under which \<open>janus_streaming_relay_rtp_packet\<close> reaches the SVC path:
  a valid packet and session, the started/paused gate passed, a video RTP packet with SVC
  information, for a viewer with video enabled.
\<close>

definition svc_path ::
  "('c, 's, 'v) janus_streaming_session \<Rightarrow> janus_streaming_rtp_relay_packet \<Rightarrow> bool" where
  "svc_path s p \<longleftrightarrow>
     pkt_data p \<noteq> None \<and> pkt_length p \<ge> 1 \<and> handle s \<noteq> None
     \<and> (is_keyframe p \<or> (started s \<noteq> 0 \<and> paused s = 0))
     \<and> is_rtp p \<and> is_video p \<and> video s \<and> svc p"

text \<open>
  A source through which a PLI can go out: the video RTCP socket is open, the peer's
  address has been latched, and no send is in progress. The three ways a PLI is asked
  for: a direct call of the helper (as media setup makes), the housekeeping of the relay
  loop, and RTCP feedback from a viewer. A run serves a list of such requests, each with
  its two clock readings, and collects the value stored in \<open>pli_latest\<close> at every
  emission; \<open>spaced t xs\<close> says that the first of \<open>xs\<close> is at least a second after \<open>t\<close>
  and each next one at least a second after the one before.
\<close>

definition pli_capable :: "'c janus_streaming_rtp_source \<Rightarrow> bool" where
  "pli_capable source \<longleftrightarrow>
     video_rtcp_fd source \<ge> 0 \<and> video_rtcp_addr_family source \<noteq> 0 \<and> sending_pli source = 0"

datatype ('c, 's, 'v) pli_request =
  Direct_request
  | Loop_housekeeping
  | Viewer_rtcp plugin_env gint "('c, 's, 'v) janus_streaming_session" bool bool bool "64 word"

fun serve_pli_request ::
  "('c, 's, 'v) pli_request \<Rightarrow> gint64 \<Rightarrow> gint64 \<Rightarrow> 'c janus_streaming_rtp_source
    \<Rightarrow> 'c janus_streaming_rtp_source \<times> upstream_rtcp list" where
  "serve_pli_request Direct_request now stamp source =
     janus_streaming_rtcp_pli_send now stamp source"
| "serve_pli_request Loop_housekeeping now stamp source = relay_thread_pli now stamp source"
| "serve_pli_request (Viewer_rtcp env stopped session vid has_fir has_pli bw) now stamp source =
     janus_streaming_incoming_rtcp env stopped session vid has_fir has_pli bw now stamp source"

fun pli_run ::
  "'c janus_streaming_rtp_source \<Rightarrow> (('c, 's, 'v) pli_request \<times> gint64 \<times> gint64) list
    \<Rightarrow> gint64 list" where
  "pli_run source [] = []"
| "pli_run source ((rq, now, stamp) # rest) =
     (let (source1, sent) = serve_pli_request rq now stamp source
      in (if sent = [] then [] else [stamp]) @ pli_run source1 rest)"

fun spaced :: "gint64 \<Rightarrow> gint64 list \<Rightarrow> bool" where
  "spaced t [] = True"
| "spaced t (x # xs) = (x - t \<ge> G_USEC_PER_SEC \<and> spaced x xs)"

section \<open>Concrete inputs\<close>

text \<open>
  A host library whose header rewrite adds one to the sequence number and timestamp, a
  viewer that has started with every medium enabled, and a plain video packet.
\<close>

definition w_lib :: "(unit, unit, unit) janus_lib" where
  "w_lib =
     \<lparr>janus_rtp_header_update = (\<lambda>h c v. (h\<lparr>seq_number := seq_number h + 1, timestamp := timestamp h + 1\<rparr>, c)),
      janus_rtp_payload = (\<lambda>b n. Some (0, n - 12)),
      janus_vp9_is_keyframe = (\<lambda>pl n. True),
      janus_rtp_simulcasting_context_process_rtp = (\<lambda>sc b n ss vc c. (True, sc, c)),
      janus_vp8_simulcast_descriptor_update = (\<lambda>pl n v ch. (pl, v)),
      janus_rtp_switching_context_reset = (\<lambda>c. c),
      janus_is_rtp = (\<lambda>b n. n \<ge> 12),
      srtp_unprotect = (\<lambda>b n. (True, b, n)),
      janus_rtp_skew_compensate_audio = (\<lambda>h c t. (0, h, c)),
      janus_rtp_skew_compensate_video = (\<lambda>h c t. (0, h, c)),
      janus_vp8_is_keyframe = (\<lambda>pl n. False),
      janus_h264_is_keyframe = (\<lambda>pl n. False),
      janus_av1_is_keyframe = (\<lambda>pl n. False),
      janus_h265_is_keyframe = (\<lambda>pl n. False),
      janus_vp9_parse_svc = (\<lambda>pl n. (0, False, zero_svc_info))\<rparr>"

definition w_session :: "(unit, unit, unit) janus_streaming_session" where
  "w_session =
     \<lparr>handle = Some 1, mountpoint = Some True, started = 1, paused = 0,
      audio = True, video = True, data = True,
      rtp_context = \<lparr>v_base_seq = 0, ctx_rest = ()\<rparr>,
      sim_context = \<lparr>sim_need_pli = False, changed_substream = False, changed_temporal = False,
                     sim_substream = 0, templayer = 0, sim_rest = ()\<rparr>,
      vp8_context = (),
      spatial_layer = - 1, target_spatial_layer = 2, last_spatial_layer = (\<lambda>i. 0),
      temporal_layer = - 1, target_temporal_layer = 2,
      dataready = 0, stopping = 0, hangingup = 0, destroyed = 0\<rparr>"

definition w_header :: janus_rtp_header where
  "w_header = \<lparr>markerbit = False, ptype = 96, seq_number = htons 7, timestamp = htonl 9000, ssrc = 5\<rparr>"

definition w_buffer :: janus_buffer where
  "w_buffer = \<lparr>hdr = w_header, body = [1, 2, 3, 4, 5, 6, 7, 8]\<rparr>"

definition w_packet :: janus_streaming_rtp_relay_packet where
  "w_packet = zero_packet\<lparr>pkt_data := Some w_buffer, pkt_length := 20, is_rtp := True,
                is_video := True, pkt_timestamp := 9000, pkt_seq_number := 7\<rparr>"



text \<open>A data-channel message, and global flags of a running plugin.\<close>

definition w_data_packet :: janus_streaming_rtp_relay_packet where
  "w_data_packet = zero_packet\<lparr>pkt_data := Some w_buffer, pkt_length := 8\<rparr>"

definition w_env :: plugin_env where
  "w_env = \<lparr>g_stopping = 0, g_initialized = 1, g_gateway = True\<rparr>"

text \<open>
  SVC packets of spatial layer \<open>2\<close> (plain, and with the F and E bits set) and of layer
  \<open>0\<close>; a fresh viewer asking for spatial layer \<open>1\<close>; a viewer at spatial layer \<open>2\<close>
  asking for layer \<open>0\<close>; and a viewer settled at layer \<open>0\<close>.
\<close>

definition w_svc_packet :: janus_streaming_rtp_relay_packet where
  "w_svc_packet =
     zero_packet\<lparr>pkt_data := Some w_buffer, pkt_length := 20, is_rtp := True, is_video := True,
       svc := True, svc_info := zero_svc_info\<lparr>svc_spatial_layer := 2\<rparr>,
       pkt_timestamp := 9000, pkt_seq_number := 7\<rparr>"


definition c4_session :: "(unit, unit, unit) janus_streaming_session" where
  "c4_session = w_session\<lparr>spatial_layer := 2, target_spatial_layer := 0,
                   temporal_layer := 0, target_temporal_layer := 0\<rparr>"

definition c4_packet :: janus_streaming_rtp_relay_packet where
  "c4_packet = w_svc_packet\<lparr>svc_info := zero_svc_info\<lparr>svc_spatial_layer := 2, fbit := True, ebit := True\<rparr>\<rparr>"

definition c4_base_packet :: janus_streaming_rtp_relay_packet where
  "c4_base_packet = w_svc_packet\<lparr>svc_info := zero_svc_info\<rparr>"

definition w_low_session :: "(unit, unit, unit) janus_streaming_session" where
  "w_low_session = w_session\<lparr>spatial_layer := 0, target_spatial_layer := 0,
                      temporal_layer := 0, target_temporal_layer := 0\<rparr>"

text \<open>An RTP source with RTCP feedback, whose last PLI went out at \<open>5000000\<close>.\<close>

definition w_keyframe_buffer :: janus_streaming_rtp_keyframe where
  "w_keyframe_buffer = \<lparr>kf_enabled = True, latest_keyframe = [], temp_keyframe = [], temp_ts = 0\<rparr>"

definition w_source :: "unit janus_streaming_rtp_source" where
  "w_source =
     \<lparr>arc = False, vrc = False, drc = False,
      src_context = (\<lambda>i. \<lparr>v_base_seq = 0, ctx_rest = ()\<rparr>),
      audio_rtcp_fd = - 1, video_rtcp_fd = 5,
      src_simulcast = False, src_svc = False, askew = False, vskew = False,
      last_received_audio = 0, last_received_video = 0, last_received_data = 0,
      audio_ssrc = 0, video_ssrc = 77,
      need_pli = 0, sending_pli = 0, pli_latest = 5000000,
      lowest_bitrate = 0, audio_rtcp_addr_family = 0, video_rtcp_addr_family = 2,
      keyframe = w_keyframe_buffer,
      src_textdata = True, buffermsg = True, rtp_collision = 0, last_msg = None,
      is_srtp = False\<rparr>"

section \<open>Byte order round trip\<close>

lemma bit32_high: "32 \<le> m \<Longrightarrow> \<not> bit (x :: 32 word) m"
  by (auto dest: bit_imp_le_length)

lemmas htonl_bits =
  htonl_def bit_or_iff bit_push_bit_iff bit_drop_bit_eq bit_take_bit_iff bit32_high

lemma bit_htonl_0: "n < 8 \<Longrightarrow> bit (htonl x) n = bit x (n + 24)"
  by (auto simp: htonl_bits add.commute)

lemma bit_htonl_1: "8 \<le> n \<Longrightarrow> n < 16 \<Longrightarrow> bit (htonl x) n = bit x (n + 8)"
proof -
  assume a: "8 \<le> n" "n < 16"
  then have "16 + (n - 8) = n + 8" "n - 8 < 8" by simp_all
  with a show ?thesis by (auto simp: htonl_bits add.commute)
qed

lemma bit_htonl_2: "16 \<le> n \<Longrightarrow> n < 24 \<Longrightarrow> bit (htonl x) n = bit x (n - 8)"
proof -
  assume a: "16 \<le> n" "n < 24"
  then have "8 + (n - 16) = n - 8" "n - 16 < 8" "\<not> n - 8 < 8" by simp_all
  with a show ?thesis by (auto simp: htonl_bits)
qed

lemma bit_htonl_3: "24 \<le> n \<Longrightarrow> n < 32 \<Longrightarrow> bit (htonl x) n = bit x (n - 24)"
proof -
  assume a: "24 \<le> n" "n < 32"
  then have "\<not> n - 16 < 8" "\<not> n - 8 < 8" by simp_all
  with a show ?thesis by (auto simp: htonl_bits)
qed

lemma htonl_htonl: "htonl (htonl x) = x"
proof (rule bit_word_eqI)
  fix n assume "n < LENGTH(32)"
  then have n: "n < 32" by simp
  consider "n < 8" | "8 \<le> n" "n < 16" | "16 \<le> n" "n < 24" | "24 \<le> n" "n < 32"
    using n by linarith
  then show "bit (htonl (htonl x)) n = bit x n"
  proof cases
    case 1
    have "bit (htonl (htonl x)) n = bit (htonl x) (n + 24)" using 1 by (rule bit_htonl_0)
    also have "\<dots> = bit x (n + 24 - 24)" using 1 by (intro bit_htonl_3) simp_all
    finally show ?thesis by simp
  next
    case 2
    have "bit (htonl (htonl x)) n = bit (htonl x) (n + 8)" using 2 by (rule bit_htonl_1)
    also have "\<dots> = bit x (n + 8 - 8)" using 2 by (intro bit_htonl_2) simp_all
    finally show ?thesis by simp
  next
    case 3
    have "bit (htonl (htonl x)) n = bit (htonl x) (n - 8)" using 3 by (rule bit_htonl_2)
    also have "\<dots> = bit x (n - 8 + 8)" using 3 by (intro bit_htonl_1) simp_all
    finally show ?thesis using 3 by simp
  next
    case 4
    have "bit (htonl (htonl x)) n = bit (htonl x) (n - 24)" using 4 by (rule bit_htonl_3)
    also have "\<dots> = bit x (n - 24 + 24)" using 4 by (intro bit_htonl_0) simp_all
    finally show ?thesis using 4 by simp
  qed
qed

lemma htons_htons: "htons (htons x) = x"
  unfolding htons_def
  apply (rule bit_word_eqI)
  apply (simp add: bit_or_iff bit_push_bit_iff bit_drop_bit_eq)
  apply (auto simp: bit_imp_le_length)
  done

lemma ntohl_htonl: "ntohl (htonl x) = x"
  by (simp add: ntohl_def htonl_htonl)

lemma ntohs_htons: "ntohs (htons x) = x"
  by (simp add: ntohs_def htons_htons)

section \<open>Round trip of the shared header\<close>

lemma svc_spatial_ctx:
  "svc_spatial k now h info s = (s1, l, ev) \<Longrightarrow> rtp_context s1 = rtp_context s"
  by (auto simp: svc_spatial_def svc_note_layer_def svc_upscale_def svc_downscale_def Let_def
      split: if_splits)

lemma svc_temporal_ctx:
  "svc_temporal h info s = (s1, l, ev) \<Longrightarrow> rtp_context s1 = rtp_context s"
  by (auto simp: svc_temporal_def Let_def split: if_splits)

lemma svc_spatial_no_relay:
  "svc_spatial k now h info s = (s1, l, ev) \<Longrightarrow> Relay_rtp a b c d \<notin> set ev"
  by (auto simp: svc_spatial_def svc_note_layer_def svc_upscale_def svc_downscale_def Let_def
      split: if_splits)

lemma svc_temporal_no_relay:
  "svc_temporal h info s = (s1, l, ev) \<Longrightarrow> Relay_rtp a b c d \<notin> set ev"
  by (auto simp: svc_temporal_def Let_def split: if_splits)

lemma relay_svc_unfold:
  assumes "svc_spatial (svc_keyframe lib p buf) now h (svc_info p) s = (s1, l1, ev1)"
      and "svc_temporal h (svc_info p) s1 = (s2, l2, ev2)"
  shows "relay_svc lib g now h s p buf =
     (if l1 < svc_spatial_layer (svc_info p) then svc_drop s1 buf ev1
      else if l2 < svc_temporal_layer (svc_info p) then svc_drop s2 buf (ev1 @ ev2)
      else svc_send lib g h s2 p buf (ebit (svc_info p) \<and> l1 = svc_spatial_layer (svc_info p)) (ev1 @ ev2))"
  by (simp add: relay_svc_def Let_def assms)

lemma svc_send_rewritten:
  assumes "Relay_rtp h v b n \<in> set (out_calls (svc_send lib g h0 s p buf ov evs))"
      and "Relay_rtp h v b n \<notin> set evs"
  shows "rewritten_for lib (rtp_context s) True buf p b (svc_send lib g h0 s p buf ov evs)"
  using assms
  by (auto simp: rewritten_for_def svc_send_def Let_def restore_header_def split: prod.splits if_splits)

lemma relay_svc_rewritten:
  assumes "Relay_rtp h v b n \<in> set (out_calls (relay_svc lib g now h0 s p buf))"
  shows "rewritten_for lib (rtp_context s) True buf p b (relay_svc lib g now h0 s p buf)"
proof -
  obtain s1 l1 ev1 where sp: "svc_spatial (svc_keyframe lib p buf) now h0 (svc_info p) s = (s1, l1, ev1)"
    by (cases "svc_spatial (svc_keyframe lib p buf) now h0 (svc_info p) s") auto
  obtain s2 l2 ev2 where tp: "svc_temporal h0 (svc_info p) s1 = (s2, l2, ev2)"
    by (cases "svc_temporal h0 (svc_info p) s1") auto
  note u = relay_svc_unfold [OF sp tp, of g]
  have n1: "Relay_rtp h v b n \<notin> set ev1" using sp by (rule svc_spatial_no_relay)
  have n2: "Relay_rtp h v b n \<notin> set ev2" using tp by (rule svc_temporal_no_relay)
  have ctx: "rtp_context s2 = rtp_context s"
    using svc_spatial_ctx [OF sp] svc_temporal_ctx [OF tp] by simp
  show ?thesis
  proof (cases "l1 < svc_spatial_layer (svc_info p)")
    case True
    with assms u n1 show ?thesis by (simp add: svc_drop_def)
  next
    case False
    note f1 = this
    show ?thesis
    proof (cases "l2 < svc_temporal_layer (svc_info p)")
      case True
      with assms u f1 n1 n2 show ?thesis by (simp add: svc_drop_def)
    next
      case False
      with f1 u have e: "relay_svc lib g now h0 s p buf =
          svc_send lib g h0 s2 p buf (ebit (svc_info p) \<and> l1 = svc_spatial_layer (svc_info p)) (ev1 @ ev2)"
        by simp
      from assms have "Relay_rtp h v b n \<in> set (out_calls (svc_send lib g h0 s2 p buf
           (ebit (svc_info p) \<and> l1 = svc_spatial_layer (svc_info p)) (ev1 @ ev2)))"
        by (simp only: e)
      moreover have "Relay_rtp h v b n \<notin> set (ev1 @ ev2)" using n1 n2 by simp
      ultimately have "rewritten_for lib (rtp_context s2) True buf p b (svc_send lib g h0 s2 p buf
           (ebit (svc_info p) \<and> l1 = svc_spatial_layer (svc_info p)) (ev1 @ ev2))"
        by (rule svc_send_rewritten)
      then show ?thesis by (simp only: e ctx)
    qed
  qed
qed

lemma relay_plain_rewritten:
  assumes "Relay_rtp h v b n \<in> set (out_calls (relay_plain lib g h0 s p buf vid))"
  shows "rewritten_for lib (rtp_context s) vid buf p b (relay_plain lib g h0 s p buf vid)"
  using assms
  by (auto simp: rewritten_for_def relay_plain_def Let_def restore_header_def split: prod.splits if_splits)

lemma relay_simulcast_rewritten:
  assumes "Relay_rtp h v b n \<in> set (out_calls (relay_simulcast lib g h0 s p buf))"
  shows "rewritten_for lib
           (snd (snd (janus_rtp_simulcasting_context_process_rtp lib (sim_context s) buf
                   (pkt_length p) (pkt_ssrc p) (codec p) (rtp_context s))))
           True buf p b (relay_simulcast lib g h0 s p buf)"
proof (cases "janus_rtp_payload lib buf (pkt_length p)")
  case None
  with assms show ?thesis by (simp add: relay_simulcast_def dropped_def)
next
  case (Some a)
  obtain off plen where a: "a = (off, plen)" by (cases a)
  obtain relay sim1 ctx1 where pr: "janus_rtp_simulcasting_context_process_rtp lib (sim_context s) buf
                   (pkt_length p) (pkt_ssrc p) (codec p) (rtp_context s) = (relay, sim1, ctx1)"
    by (cases "janus_rtp_simulcasting_context_process_rtp lib (sim_context s) buf
                   (pkt_length p) (pkt_ssrc p) (codec p) (rtp_context s)") auto
  obtain h1 ctx2 where hu: "janus_rtp_header_update lib (hdr buf) ctx1 True = (h1, ctx2)"
    by (cases "janus_rtp_header_update lib (hdr buf) ctx1 True") auto
  obtain pl1 vp where vu: "janus_vp8_simulcast_descriptor_update lib (drop off (body buf)) plen
                               (vp8_context s) (changed_substream sim1) = (pl1, vp)"
    by (cases "janus_vp8_simulcast_descriptor_update lib (drop off (body buf)) plen
                               (vp8_context s) (changed_substream sim1)") auto
  show ?thesis
    using assms
    by (simp add: relay_simulcast_def Some a pr hu vu Let_def rewritten_for_def restore_header_def
          split: if_splits)
qed


lemma relay_rtp_forwarded_cases:
  assumes "is_rtp p"
      and "Relay_rtp h v b n \<in> set (out_calls (janus_streaming_relay_rtp_packet lib g now s p))"
  shows "\<exists>buf h0. pkt_data p = Some buf \<and>
      ((is_video p \<and> svc p \<and>
          janus_streaming_relay_rtp_packet lib g now s p = relay_svc lib g now h0 s p buf)
     \<or> (is_video p \<and> \<not> svc p \<and> simulcast p \<and>
          janus_streaming_relay_rtp_packet lib g now s p = relay_simulcast lib g h0 s p buf)
     \<or> (is_video p \<and> \<not> svc p \<and> \<not> simulcast p \<and>
          janus_streaming_relay_rtp_packet lib g now s p = relay_plain lib g h0 s p buf True)
     \<or> (\<not> is_video p \<and>
          janus_streaming_relay_rtp_packet lib g now s p = relay_plain lib g h0 s p buf False))"
  using assms
  by (auto simp: janus_streaming_relay_rtp_packet_def dropped_def split: option.splits if_splits)

text \<open>
  Claim C1. Whenever \<open>janus_streaming_relay_rtp_packet\<close> hands an RTP packet to the
  gateway's \<open>relay_rtp\<close> for a viewer, the header seen by that call carries the sequence
  number and timestamp produced by \<open>janus_rtp_header_update\<close> from the viewer's switching
  context, which the session then keeps; and when the function returns, the shared
  buffer's timestamp and sequence number, read back with \<open>ntohl\<close>/\<open>ntohs\<close>, are the
  values saved in the packet. If those saved values were taken from the buffer, as the
  relay thread does, the two header fields are exactly what they were before the call, so
  the next viewer starts from the unmodified header.
\<close>

theorem relay_rtp_round_trip:
  assumes "is_rtp p"
      and "Relay_rtp h v b n \<in> set (out_calls (janus_streaming_relay_rtp_packet lib g now s p))"
  shows "\<exists>buf b'. pkt_data p = Some buf
      \<and> timestamp (hdr b) =
          timestamp (fst (janus_rtp_header_update lib (hdr buf) (viewer_context lib s p buf) (is_video p)))
      \<and> seq_number (hdr b) =
          seq_number (fst (janus_rtp_header_update lib (hdr buf) (viewer_context lib s p buf) (is_video p)))
      \<and> rtp_context (out_session (janus_streaming_relay_rtp_packet lib g now s p)) =
          snd (janus_rtp_header_update lib (hdr buf) (viewer_context lib s p buf) (is_video p))
      \<and> out_data (janus_streaming_relay_rtp_packet lib g now s p) = Some b'
      \<and> ntohl (timestamp (hdr b')) = pkt_timestamp p
      \<and> ntohs (seq_number (hdr b')) = pkt_seq_number p
      \<and> (ntohl (timestamp (hdr buf)) = pkt_timestamp p \<and> ntohs (seq_number (hdr buf)) = pkt_seq_number p
           \<longrightarrow> timestamp (hdr b') = timestamp (hdr buf) \<and> seq_number (hdr b') = seq_number (hdr buf))"
proof -
  let ?r = "janus_streaming_relay_rtp_packet lib g now s p"
  from relay_rtp_forwarded_cases [OF assms]
  obtain buf h0 where buf: "pkt_data p = Some buf"
    and cases: "(is_video p \<and> svc p \<and> ?r = relay_svc lib g now h0 s p buf)
     \<or> (is_video p \<and> \<not> svc p \<and> simulcast p \<and> ?r = relay_simulcast lib g h0 s p buf)
     \<or> (is_video p \<and> \<not> svc p \<and> \<not> simulcast p \<and> ?r = relay_plain lib g h0 s p buf True)
     \<or> (\<not> is_video p \<and> ?r = relay_plain lib g h0 s p buf False)"
    by blast
  have rw: "rewritten_for lib (viewer_context lib s p buf) (is_video p) buf p b ?r"
    using cases
  proof (elim disjE conjE)
    assume a: "is_video p" "svc p" "?r = relay_svc lib g now h0 s p buf"
    from assms(2) have "Relay_rtp h v b n \<in> set (out_calls (relay_svc lib g now h0 s p buf))"
      by (simp only: a(3))
    from relay_svc_rewritten [OF this] a show ?thesis by (simp add: viewer_context_def)
  next
    assume a: "is_video p" "\<not> svc p" "simulcast p" "?r = relay_simulcast lib g h0 s p buf"
    from assms(2) have "Relay_rtp h v b n \<in> set (out_calls (relay_simulcast lib g h0 s p buf))"
      by (simp only: a(4))
    from relay_simulcast_rewritten [OF this] a show ?thesis by (simp add: viewer_context_def)
  next
    assume a: "is_video p" "\<not> svc p" "\<not> simulcast p" "?r = relay_plain lib g h0 s p buf True"
    from assms(2) have "Relay_rtp h v b n \<in> set (out_calls (relay_plain lib g h0 s p buf True))"
      by (simp only: a(4))
    from relay_plain_rewritten [OF this] a show ?thesis by (simp add: viewer_context_def)
  next
    assume a: "\<not> is_video p" "?r = relay_plain lib g h0 s p buf False"
    from assms(2) have "Relay_rtp h v b n \<in> set (out_calls (relay_plain lib g h0 s p buf False))"
      by (simp only: a(2))
    from relay_plain_rewritten [OF this] a show ?thesis by (simp add: viewer_context_def)
  qed
  then obtain b' where b': "out_data ?r = Some b'" "timestamp (hdr b') = htonl (pkt_timestamp p)"
      "seq_number (hdr b') = htons (pkt_seq_number p)"
    by (auto simp: rewritten_for_def)
  have unchanged: "ntohl (timestamp (hdr buf)) = pkt_timestamp p \<and> ntohs (seq_number (hdr buf)) = pkt_seq_number p
           \<longrightarrow> timestamp (hdr b') = timestamp (hdr buf) \<and> seq_number (hdr b') = seq_number (hdr buf)"
  proof
    assume e: "ntohl (timestamp (hdr buf)) = pkt_timestamp p \<and> ntohs (seq_number (hdr buf)) = pkt_seq_number p"
    then have "htonl (pkt_timestamp p) = timestamp (hdr buf)" "htons (pkt_seq_number p) = seq_number (hdr buf)"
      using htonl_htonl [of "timestamp (hdr buf)"] htons_htons [of "seq_number (hdr buf)"]
      by (simp_all add: ntohl_def ntohs_def)
    with b' show "timestamp (hdr b') = timestamp (hdr buf) \<and> seq_number (hdr b') = seq_number (hdr buf)"
      by simp
  qed
  from rw b' unchanged buf show ?thesis
    by (auto simp: rewritten_for_def ntohl_htonl ntohs_htons)
qed

theorem relay_rtp_round_trip_witness:
  "is_rtp w_packet
   \<and> Relay_rtp 1 True (w_buffer\<lparr>hdr := w_header\<lparr>seq_number := htons 7 + 1, timestamp := htonl 9000 + 1\<rparr>\<rparr>) 20
        \<in> set (out_calls (janus_streaming_relay_rtp_packet w_lib True 0 w_session w_packet))
   \<and> (\<exists>b'. out_data (janus_streaming_relay_rtp_packet w_lib True 0 w_session w_packet) = Some b'
         \<and> ntohl (timestamp (hdr b')) = 9000 \<and> ntohs (seq_number (hdr b')) = 7
         \<and> timestamp (hdr b') = timestamp w_header \<and> seq_number (hdr b') = seq_number w_header)"
proof -
  have h1: "is_rtp w_packet" by (simp add: w_packet_def zero_packet_def)
  have h2: "Relay_rtp 1 True (w_buffer\<lparr>hdr := w_header\<lparr>seq_number := htons 7 + 1, timestamp := htonl 9000 + 1\<rparr>\<rparr>) 20
        \<in> set (out_calls (janus_streaming_relay_rtp_packet w_lib True 0 w_session w_packet))"
    by (simp add: janus_streaming_relay_rtp_packet_def relay_plain_def w_packet_def zero_packet_def
        w_session_def w_lib_def w_buffer_def w_header_def Let_def)
  have d: "pkt_data w_packet = Some w_buffer" "pkt_timestamp w_packet = 9000" "pkt_seq_number w_packet = 7"
    by (simp_all add: w_packet_def zero_packet_def)
  have e: "ntohl (timestamp (hdr w_buffer)) = 9000" "ntohs (seq_number (hdr w_buffer)) = 7"
    by (simp_all add: w_buffer_def w_header_def ntohl_htonl ntohs_htons)
  from relay_rtp_round_trip [OF h1 h2] d e h1 h2 show ?thesis
    by (auto simp: w_buffer_def)
qed

section \<open>The started/paused gate and its keyframe bypass\<close>




lemma svc_note_layer_sel [simp]:
  "spatial_layer (svc_note_layer now info s) = spatial_layer s"
  "target_spatial_layer (svc_note_layer now info s) = target_spatial_layer s"
  "temporal_layer (svc_note_layer now info s) = temporal_layer s"
  "rtp_context (svc_note_layer now info s) = rtp_context s"
  by (simp_all add: svc_note_layer_def)














section \<open>Data-channel messages wait for the channel to be writable\<close>

lemma svc_spatial_no_data:
  "svc_spatial k now h info s = (s1, l, ev) \<Longrightarrow> Relay_data a b c d \<notin> set ev"
  by (auto simp: svc_spatial_def svc_note_layer_def svc_upscale_def svc_downscale_def Let_def
      split: if_splits)

lemma svc_temporal_no_data:
  "svc_temporal h info s = (s1, l, ev) \<Longrightarrow> Relay_data a b c d \<notin> set ev"
  by (auto simp: svc_temporal_def Let_def split: if_splits)

lemma svc_send_no_data:
  "Relay_data a b c d \<notin> set evs \<Longrightarrow>
     Relay_data a b c d \<notin> set (out_calls (svc_send lib g h s p buf ov evs))"
  by (auto simp: svc_send_def Let_def split: prod.splits)

lemma relay_svc_no_data:
  "Relay_data a b c d \<notin> set (out_calls (relay_svc lib g now h s p buf))"
proof -
  obtain s1 l1 ev1 where sp: "svc_spatial (svc_keyframe lib p buf) now h (svc_info p) s = (s1, l1, ev1)"
    by (cases "svc_spatial (svc_keyframe lib p buf) now h (svc_info p) s") auto
  obtain s2 l2 ev2 where tp: "svc_temporal h (svc_info p) s1 = (s2, l2, ev2)"
    by (cases "svc_temporal h (svc_info p) s1") auto
  have n: "Relay_data a b c d \<notin> set ev1" "Relay_data a b c d \<notin> set ev2"
    using svc_spatial_no_data [OF sp] svc_temporal_no_data [OF tp] by simp_all
  then have n12: "Relay_data a b c d \<notin> set (ev1 @ ev2)" by simp
  show ?thesis
    using n svc_send_no_data [OF n12, of lib g h s2 p buf
        "ebit (svc_info p) \<and> l1 = svc_spatial_layer (svc_info p)"]
    by (simp add: relay_svc_unfold [OF sp tp] svc_drop_def)
qed

lemma relay_plain_no_data:
  "Relay_data a b c d \<notin> set (out_calls (relay_plain lib g h s p buf vid))"
  by (auto simp: relay_plain_def Let_def split: prod.splits)

lemma relay_simulcast_no_data:
  "Relay_data a b c d \<notin> set (out_calls (relay_simulcast lib g h s p buf))"
  by (auto simp: relay_simulcast_def dropped_def Let_def split: prod.splits option.splits)

lemma relay_data_needs_dataready:
  assumes "Relay_data a b c d \<in> set (out_calls (janus_streaming_relay_rtp_packet lib g now s p))"
  shows "dataready s \<noteq> 0 \<and> data s \<and> \<not> is_rtp p"
  using assms relay_svc_no_data [of a b c d lib g now _ s p] relay_plain_no_data [of a b c d lib g _ s p]
    relay_simulcast_no_data [of a b c d lib g _ s p]
  by (auto simp: janus_streaming_relay_rtp_packet_def dropped_def split: option.splits if_splits)

lemma data_ready_Some:
  "\<exists>s1. janus_streaming_data_ready env st (Some s) = Some s1
      \<and> destroyed s1 = destroyed s \<and> hangingup s1 = hangingup s
      \<and> (dataready s \<noteq> 0 \<longrightarrow> s1 = s)
      \<and> (dataready s = 0 \<longrightarrow> (if data_ready_passes env st s then s1 = s\<lparr>dataready := 1\<rparr> else s1 = s))"
  by (auto simp: janus_streaming_data_ready_def data_ready_passes_def)

lemma trace_set_stays:
  "dataready s \<noteq> 0 \<Longrightarrow> rising_edges (data_ready_trace s cs) = 0"
proof (induction cs arbitrary: s)
  case Nil
  show ?case by simp
next
  case (Cons c cs)
  obtain env st where c: "c = (env, st)" by (cases c)
  from data_ready_Some [of env st s] Cons.prems
  have e: "janus_streaming_data_ready env st (Some s) = Some s" by auto
  have "rising_edges (s # data_ready_trace s cs) = rising_edges (data_ready_trace s cs)"
    using Cons.prems by (cases "data_ready_trace s cs") simp_all
  then show ?case using Cons.IH [OF Cons.prems] by (simp add: c e)
qed

lemma trace_hd: "\<exists>rest. data_ready_trace s cs = s # rest"
  by (cases cs) auto

lemma trace_at_most_once:
  "rising_edges (data_ready_trace s cs) \<le> 1"
proof (induction cs arbitrary: s)
  case Nil
  show ?case by simp
next
  case (Cons c cs)
  obtain env st where c: "c = (env, st)" by (cases c)
  obtain s1 where e: "janus_streaming_data_ready env st (Some s) = Some s1"
    and d: "dataready s \<noteq> 0 \<longrightarrow> s1 = s"
      "dataready s = 0 \<longrightarrow> (if data_ready_passes env st s then s1 = s\<lparr>dataready := 1\<rparr> else s1 = s)"
    using data_ready_Some [of env st s] by blast
  obtain rest where r: "data_ready_trace s1 cs = s1 # rest" using trace_hd by blast
  show ?case
  proof (cases "dataready s = 0 \<and> dataready s1 \<noteq> 0")
    case True
    then have "rising_edges (data_ready_trace s1 cs) = 0" by (simp add: trace_set_stays)
    then show ?thesis using True r by (simp add: c e)
  next
    case False
    then show ?thesis using Cons.IH [of s1] r by (auto simp add: c e)
  qed
qed

lemma trace_exactly_once:
  assumes "dataready s = 0" and "\<exists>c \<in> set cs. data_ready_passes (fst c) (snd c) s"
  shows "rising_edges (data_ready_trace s cs) = 1"
  using assms
proof (induction cs arbitrary: s)
  case Nil
  then show ?case by simp
next
  case (Cons c cs)
  obtain env st where c: "c = (env, st)" by (cases c)
  obtain s1 where e: "janus_streaming_data_ready env st (Some s) = Some s1"
    and k: "destroyed s1 = destroyed s" "hangingup s1 = hangingup s"
    and d: "if data_ready_passes env st s then s1 = s\<lparr>dataready := 1\<rparr> else s1 = s"
    using data_ready_Some [of env st s] Cons.prems(1) by auto
  obtain rest where r: "data_ready_trace s1 cs = s1 # rest" using trace_hd by blast
  show ?case
  proof (cases "data_ready_passes env st s")
    case True
    with d have s1: "s1 = s\<lparr>dataready := 1\<rparr>" by simp
    then have "rising_edges (data_ready_trace s1 cs) = 0" by (simp add: trace_set_stays)
    then show ?thesis using r s1 Cons.prems(1) by (simp add: c e)
  next
    case False
    with d have s1: "s1 = s" by simp
    from False Cons.prems(2) c have "\<exists>c \<in> set cs. data_ready_passes (fst c) (snd c) s" by auto
    from Cons.IH [OF Cons.prems(1) this] show ?thesis
      using r s1 Cons.prems(1) by (simp add: c e)
  qed
qed

text \<open>
  Claim C10. \<open>janus_streaming_relay_rtp_packet\<close> calls the gateway's \<open>relay_data\<close> only
  for a viewer whose \<open>dataready\<close> flag is set. For a viewer with data enabled and
  \<open>dataready\<close> still \<open>0\<close> a data message is dropped: no gateway call, session and
  buffer unchanged. Along any sequence of \<open>data_ready\<close> callbacks the flag goes from
  \<open>0\<close> to \<open>1\<close> at most once, and exactly once when it starts at \<open>0\<close> and one of
  the callbacks gets past the function's guards; the hangup of the connection puts it
  back to \<open>0\<close>.
\<close>

theorem data_channel_gate:
  "(Relay_data h bin b n \<in> set (out_calls (janus_streaming_relay_rtp_packet lib g now s p))
      \<longrightarrow> dataready s \<noteq> 0)
   \<and> (\<not> is_rtp p \<and> data s \<and> dataready s = 0 \<longrightarrow>
        out_calls (janus_streaming_relay_rtp_packet lib g now s p) = []
      \<and> out_session (janus_streaming_relay_rtp_packet lib g now s p) = s
      \<and> out_data (janus_streaming_relay_rtp_packet lib g now s p) = pkt_data p)
   \<and> rising_edges (data_ready_trace s cs) \<le> 1
   \<and> (dataready s = 0 \<and> (\<exists>c \<in> set cs. data_ready_passes (fst c) (snd c) s)
        \<longrightarrow> rising_edges (data_ready_trace s cs) = 1)
   \<and> (g_stopping env = 0 \<and> g_initialized env \<noteq> 0 \<and> destroyed s = 0 \<and> hangingup s = 0
        \<longrightarrow> (\<exists>s1. janus_streaming_hangup_media_internal lib env sim_reset vp8_reset (Some s) = Some s1
                  \<and> dataready s1 = 0))"
proof (intro conjI impI)
  assume "Relay_data h bin b n \<in> set (out_calls (janus_streaming_relay_rtp_packet lib g now s p))"
  from relay_data_needs_dataready [OF this] show "dataready s \<noteq> 0" by simp
next
  assume a: "\<not> is_rtp p \<and> data s \<and> dataready s = 0"
  then have "janus_streaming_relay_rtp_packet lib g now s p = dropped s p"
    by (auto simp: janus_streaming_relay_rtp_packet_def dropped_def split: option.splits)
  then show "out_calls (janus_streaming_relay_rtp_packet lib g now s p) = []"
    and "out_session (janus_streaming_relay_rtp_packet lib g now s p) = s"
    and "out_data (janus_streaming_relay_rtp_packet lib g now s p) = pkt_data p"
    by (simp_all add: dropped_def)
next
  show "rising_edges (data_ready_trace s cs) \<le> 1" by (rule trace_at_most_once)
next
  assume "dataready s = 0 \<and> (\<exists>c \<in> set cs. data_ready_passes (fst c) (snd c) s)"
  then show "rising_edges (data_ready_trace s cs) = 1" by (simp add: trace_exactly_once)
next
  assume "g_stopping env = 0 \<and> g_initialized env \<noteq> 0 \<and> destroyed s = 0 \<and> hangingup s = 0"
  then show "\<exists>s1. janus_streaming_hangup_media_internal lib env sim_reset vp8_reset (Some s) = Some s1
                  \<and> dataready s1 = 0"
    by (simp add: janus_streaming_hangup_media_internal_def)
qed


theorem data_channel_gate_witness:
  "(\<not> is_rtp w_data_packet \<and> data w_session \<and> dataready w_session = 0)
   \<and> out_calls (janus_streaming_relay_rtp_packet w_lib True 0 w_session w_data_packet) = []
   \<and> Relay_data 1 True w_buffer 8
        \<in> set (out_calls (janus_streaming_relay_rtp_packet w_lib True 0
                   (w_session\<lparr>dataready := 1\<rparr>) w_data_packet))
   \<and> dataready (w_session\<lparr>dataready := 1\<rparr>) \<noteq> 0
   \<and> (\<exists>c \<in> set [(w_env, 0), (w_env, 0)]. data_ready_passes (fst c) (snd c) w_session)
   \<and> rising_edges (data_ready_trace w_session [(w_env, 0), (w_env, 0)]) = 1
   \<and> (g_stopping w_env = 0 \<and> g_initialized w_env \<noteq> 0 \<and> destroyed w_session = 0
        \<and> hangingup w_session = 0)
   \<and> (\<exists>s1. janus_streaming_hangup_media_internal w_lib w_env id id
               (Some (w_session\<lparr>dataready := 1\<rparr>)) = Some s1 \<and> dataready s1 = 0)"
proof -
  have h1: "\<not> is_rtp w_data_packet \<and> data w_session \<and> dataready w_session = 0"
    by (simp add: w_data_packet_def zero_packet_def w_session_def)
  have h2: "Relay_data 1 True w_buffer 8
        \<in> set (out_calls (janus_streaming_relay_rtp_packet w_lib True 0
                   (w_session\<lparr>dataready := 1\<rparr>) w_data_packet))"
    by (simp add: janus_streaming_relay_rtp_packet_def w_data_packet_def zero_packet_def
        w_session_def)
  have h3: "dataready w_session = 0
      \<and> (\<exists>c \<in> set [(w_env, 0), (w_env, 0)]. data_ready_passes (fst c) (snd c) w_session)"
    by (simp add: data_ready_passes_def w_env_def w_session_def)
  have h4: "g_stopping w_env = 0 \<and> g_initialized w_env \<noteq> 0
      \<and> destroyed (w_session\<lparr>dataready := 1\<rparr>) = 0 \<and> hangingup (w_session\<lparr>dataready := 1\<rparr>) = 0"
    by (simp add: w_env_def w_session_def)
  note g1 = data_channel_gate [where p = w_data_packet and s = w_session and lib = w_lib
      and g = True and now = 0 and cs = "[(w_env, 0), (w_env, 0)]" and env = w_env
      and sim_reset = id and vp8_reset = id and h = 1 and bin = True and b = w_buffer and n = 8]
  note g2 = data_channel_gate [where p = w_data_packet and s = "w_session\<lparr>dataready := 1\<rparr>"
      and lib = w_lib and g = True and now = 0 and cs = "[]" and env = w_env
      and sim_reset = id and vp8_reset = id and h = 1 and bin = True and b = w_buffer and n = 8]
  from g1 h1 have a: "out_calls (janus_streaming_relay_rtp_packet w_lib True 0 w_session w_data_packet) = []"
    by blast
  from g1 h3 have b: "rising_edges (data_ready_trace w_session [(w_env, 0), (w_env, 0)]) = 1"
    by blast
  from g2 h2 have c: "dataready (w_session\<lparr>dataready := 1\<rparr>) \<noteq> 0" by blast
  from g2 h4 have d: "\<exists>s1. janus_streaming_hangup_media_internal w_lib w_env id id
               (Some (w_session\<lparr>dataready := 1\<rparr>)) = Some s1 \<and> dataready s1 = 0"
    by blast
  from h1 h2 h3 h4 a b c d show ?thesis by simp
qed

section \<open>SVC layer selection\<close>











lemma svc_send_keeps:
  "spatial_layer (out_session (svc_send lib g h s p buf ov evs)) = spatial_layer s
   \<and> last_spatial_layer (out_session (svc_send lib g h s p buf ov evs)) = last_spatial_layer s
   \<and> temporal_layer (out_session (svc_send lib g h s p buf ov evs)) = temporal_layer s"
  by (simp add: svc_send_def Let_def split: prod.splits)





lemmas w_eval =
  janus_streaming_relay_rtp_packet_def relay_svc_def svc_keyframe_def svc_spatial_def
  svc_note_layer_def svc_upscale_def svc_downscale_def svc_temporal_def svc_drop_def svc_send_def
  relay_plain_def restore_header_def dropped_def
  w_lib_def w_session_def w_buffer_def w_header_def zero_packet_def zero_svc_info_def Let_def






lemma svc_spatial_local:
  "svc_spatial k now h info s = (s1, l, ev) \<Longrightarrow> l = max (spatial_layer s) (spatial_layer s1)"
  by (auto simp: svc_spatial_def svc_note_layer_def svc_upscale_def svc_downscale_def Let_def
      split: if_splits)

lemma svc_temporal_local:
  "svc_temporal h info s = (s1, l, ev) \<Longrightarrow> svc_temporal_layer info > temporal_layer s1
     \<Longrightarrow> l < svc_temporal_layer info"
  by (auto simp: svc_temporal_def Let_def split: if_splits)

lemma svc_temporal_local_ge:
  "svc_temporal h info s = (s1, l, ev) \<Longrightarrow> spatial_layer s1 = spatial_layer s"
  by (auto simp: svc_temporal_def Let_def split: if_splits)

lemma svc_drop_outcome:
  "(\<forall>a b c d. Relay_rtp a b c d \<notin> set evs) \<Longrightarrow>
   (\<forall>a b c d. Relay_rtp a b c d \<notin> set (out_calls (svc_drop s buf evs)))
   \<and> rtp_context (out_session (svc_drop s buf evs)) =
       (rtp_context s)\<lparr>v_base_seq := v_base_seq (rtp_context s) + 1\<rparr>
   \<and> out_data (svc_drop s buf evs) = Some buf"
  by (simp add: svc_drop_def)

text \<open>
  Claim C4, as amended. On the SVC path a packet is not relayed when its spatial layer is
  above both the viewer's achieved spatial layer as the packet finds it and the achieved
  layer as the call leaves it (the layer in effect for this packet: an upscale triggered
  by the packet counts at once, a downscale only from the next packet on), or when its
  temporal layer is above the achieved temporal layer as the call leaves it. Each such
  drop makes no \<open>relay_rtp\<close> call, leaves the buffer as it was, and changes the switching
  context by exactly one increment of \<open>v_base_seq\<close> (a 16-bit counter).
\<close>

theorem svc_layer_drop:
  assumes "svc_path s p"
      and "svc_spatial_layer (svc_info p)
             > max (spatial_layer s)
                   (spatial_layer (out_session (janus_streaming_relay_rtp_packet lib g now s p)))
         \<or> svc_temporal_layer (svc_info p)
             > temporal_layer (out_session (janus_streaming_relay_rtp_packet lib g now s p))"
  shows "(\<forall>h v b n. Relay_rtp h v b n
            \<notin> set (out_calls (janus_streaming_relay_rtp_packet lib g now s p)))
       \<and> rtp_context (out_session (janus_streaming_relay_rtp_packet lib g now s p)) =
           (rtp_context s)\<lparr>v_base_seq := v_base_seq (rtp_context s) + 1\<rparr>
       \<and> out_data (janus_streaming_relay_rtp_packet lib g now s p) = pkt_data p"
proof -
  let ?r = "janus_streaming_relay_rtp_packet lib g now s p"
  from assms(1) obtain buf h where buf: "pkt_data p = Some buf" and h: "handle s = Some h"
    and e: "?r = relay_svc lib g now h s p buf"
    by (auto simp: svc_path_def janus_streaming_relay_rtp_packet_def)
  obtain s1 l1 ev1 where sp: "svc_spatial (svc_keyframe lib p buf) now h (svc_info p) s = (s1, l1, ev1)"
    by (cases "svc_spatial (svc_keyframe lib p buf) now h (svc_info p) s") auto
  obtain s2 l2 ev2 where tp: "svc_temporal h (svc_info p) s1 = (s2, l2, ev2)"
    by (cases "svc_temporal h (svc_info p) s1") auto
  note u = relay_svc_unfold [OF sp tp, of g]
  have n1: "\<forall>a b c d. Relay_rtp a b c d \<notin> set ev1" using svc_spatial_no_relay [OF sp] by blast
  have n2: "\<forall>a b c d. Relay_rtp a b c d \<notin> set (ev1 @ ev2)"
    using svc_spatial_no_relay [OF sp] svc_temporal_no_relay [OF tp] by auto
  have c1: "rtp_context s1 = rtp_context s" using sp by (rule svc_spatial_ctx)
  have c2: "rtp_context s2 = rtp_context s" using svc_temporal_ctx [OF tp] c1 by simp
  have l1: "l1 = max (spatial_layer s) (spatial_layer s1)" using sp by (rule svc_spatial_local)
  show ?thesis
  proof (cases "l1 < svc_spatial_layer (svc_info p)")
    case True
    then have "?r = svc_drop s1 buf ev1" by (simp add: e u)
    with svc_drop_outcome [OF n1, of s1 buf] c1 buf show ?thesis by simp
  next
    case False
    note f = this
    show ?thesis
    proof (cases "l2 < svc_temporal_layer (svc_info p)")
      case True
      with f have "?r = svc_drop s2 buf (ev1 @ ev2)" by (simp add: e u)
      with svc_drop_outcome [OF n2, of s2 buf] c2 buf show ?thesis by simp
    next
      case False
      with f have r: "?r = svc_send lib g h s2 p buf
            (ebit (svc_info p) \<and> l1 = svc_spatial_layer (svc_info p)) (ev1 @ ev2)"
        by (simp add: e u)
      have sl: "spatial_layer (out_session ?r) = spatial_layer s1"
        using svc_send_keeps [of lib g h s2 p buf _ "ev1 @ ev2"] svc_temporal_local_ge [OF tp]
        by (simp add: r)
      have tl: "temporal_layer (out_session ?r) = temporal_layer s2"
        using svc_send_keeps [of lib g h s2 p buf _ "ev1 @ ev2"] by (simp add: r)
      from assms(2) sl tl l1 f have "svc_temporal_layer (svc_info p) > temporal_layer s2"
        by (auto simp: max_def split: if_splits)
      from svc_temporal_local [OF tp this] False show ?thesis by simp
    qed
  qed
qed

theorem svc_layer_drop_witness:
  "svc_path w_low_session w_svc_packet
   \<and> svc_spatial_layer (svc_info w_svc_packet)
        > max (spatial_layer w_low_session)
              (spatial_layer (out_session (janus_streaming_relay_rtp_packet w_lib True 1000000
                 w_low_session w_svc_packet)))
   \<and> out_calls (janus_streaming_relay_rtp_packet w_lib True 1000000 w_low_session w_svc_packet) = []
   \<and> v_base_seq (rtp_context (out_session (janus_streaming_relay_rtp_packet w_lib True 1000000
         w_low_session w_svc_packet))) = 1"
proof -
  have h1: "svc_path w_low_session w_svc_packet"
    by (simp add: svc_path_def w_low_session_def w_svc_packet_def w_session_def zero_packet_def)
  have v: "spatial_layer (out_session (janus_streaming_relay_rtp_packet w_lib True 1000000
                 w_low_session w_svc_packet)) = 0"
     "out_calls (janus_streaming_relay_rtp_packet w_lib True 1000000 w_low_session w_svc_packet) = []"
    by (simp_all add: w_eval w_low_session_def w_svc_packet_def fun_upd_def)
  have h2: "svc_spatial_layer (svc_info w_svc_packet)
        > max (spatial_layer w_low_session)
              (spatial_layer (out_session (janus_streaming_relay_rtp_packet w_lib True 1000000
                 w_low_session w_svc_packet)))"
    by (simp add: v) (simp add: w_low_session_def w_svc_packet_def zero_svc_info_def)
  have r: "rtp_context w_low_session = \<lparr>v_base_seq = 0, ctx_rest = ()\<rparr>"
    by (simp add: w_low_session_def w_session_def)
  from svc_layer_drop [OF h1 disjI1 [OF h2]] h1 h2 v r show ?thesis by simp
qed

text \<open>
  Read against the viewer's stored achieved layer, the drop rule fails both ways. A viewer
  at spatial layer \<open>2\<close> asking for layer \<open>0\<close> receives a layer \<open>2\<close> packet with the F
  and E bits set: the call lowers the achieved layer to \<open>0\<close> and still relays the packet.
  A viewer that has just joined (achieved layer \<open>-1\<close>) receives a keyframe packet of
  layer \<open>0\<close>: the packet is above the achieved layer it finds, and is relayed.
\<close>

theorem svc_layer_relayed_above_achieved:
  "svc_path c4_session c4_packet
   \<and> svc_spatial_layer (svc_info c4_packet) = 2
   \<and> spatial_layer (out_session (janus_streaming_relay_rtp_packet w_lib True 1000000 c4_session c4_packet)) = 0
   \<and> Relay_rtp 1 True
        (w_buffer\<lparr>hdr := w_header\<lparr>markerbit := True, seq_number := htons 7 + 1,
                                   timestamp := htonl 9000 + 1\<rparr>\<rparr>) 20
        \<in> set (out_calls (janus_streaming_relay_rtp_packet w_lib True 1000000 c4_session c4_packet))
   \<and> svc_path w_session c4_base_packet
   \<and> svc_spatial_layer (svc_info c4_base_packet) = 0
   \<and> spatial_layer w_session = - 1
   \<and> Relay_rtp 1 True
        (w_buffer\<lparr>hdr := w_header\<lparr>seq_number := htons 7 + 1, timestamp := htonl 9000 + 1\<rparr>\<rparr>) 20
        \<in> set (out_calls (janus_streaming_relay_rtp_packet w_lib True 1000000 w_session c4_base_packet))"
proof -
  have l: "new_spatial_layer_loop (\<lambda>i. if i = 0 then 1000000 else 0) 1000000 (- 1) 2 = 0"
    by (simp add: new_spatial_layer_loop.simps)
  have a: "svc_path c4_session c4_packet" "svc_path w_session c4_base_packet"
    by (simp_all add: svc_path_def c4_session_def c4_packet_def c4_base_packet_def w_svc_packet_def
          w_session_def zero_packet_def)
  have b: "svc_spatial_layer (svc_info c4_packet) = 2"
     "spatial_layer (out_session (janus_streaming_relay_rtp_packet w_lib True 1000000 c4_session c4_packet)) = 0"
     "Relay_rtp 1 True
        (w_buffer\<lparr>hdr := w_header\<lparr>markerbit := True, seq_number := htons 7 + 1,
                                   timestamp := htonl 9000 + 1\<rparr>\<rparr>) 20
        \<in> set (out_calls (janus_streaming_relay_rtp_packet w_lib True 1000000 c4_session c4_packet))"
    by (simp_all add: w_eval c4_session_def c4_packet_def w_svc_packet_def fun_upd_def)
  have c: "svc_spatial_layer (svc_info c4_base_packet) = 0" "spatial_layer w_session = - 1"
     "Relay_rtp 1 True
        (w_buffer\<lparr>hdr := w_header\<lparr>seq_number := htons 7 + 1, timestamp := htonl 9000 + 1\<rparr>\<rparr>) 20
        \<in> set (out_calls (janus_streaming_relay_rtp_packet w_lib True 1000000 w_session c4_base_packet))"
    by (simp_all add: w_eval c4_base_packet_def w_svc_packet_def fun_upd_def l)
  from a b c show ?thesis by simp
qed

section \<open>Throttling of the upstream PLI\<close>

lemma pli_send_cases:
  "(snd (janus_streaming_rtcp_pli_send now stamp source) = []
      \<and> pli_latest (fst (janus_streaming_rtcp_pli_send now stamp source)) = pli_latest source)
   \<or> (snd (janus_streaming_rtcp_pli_send now stamp source)
         = [Sendto_pli (video_rtcp_fd source) (video_ssrc source)]
      \<and> now - pli_latest source \<ge> G_USEC_PER_SEC
      \<and> need_pli (fst (janus_streaming_rtcp_pli_send now stamp source)) = 0
      \<and> pli_latest (fst (janus_streaming_rtcp_pli_send now stamp source)) = stamp)"
  by (simp add: janus_streaming_rtcp_pli_send_def)

lemma incoming_rtcp_cases:
  "(snd (janus_streaming_incoming_rtcp env st session vid f p bw now stamp source) = []
      \<and> pli_latest (fst (janus_streaming_incoming_rtcp env st session vid f p bw now stamp source))
           = pli_latest source)
   \<or> (snd (janus_streaming_incoming_rtcp env st session vid f p bw now stamp source)
         = [Sendto_pli (video_rtcp_fd source) (video_ssrc source)]
      \<and> now - pli_latest source \<ge> G_USEC_PER_SEC
      \<and> need_pli (fst (janus_streaming_incoming_rtcp env st session vid f p bw now stamp source)) = 0
      \<and> pli_latest (fst (janus_streaming_incoming_rtcp env st session vid f p bw now stamp source))
           = stamp)"
  using pli_send_cases [of now stamp source]
  by (auto simp: janus_streaming_incoming_rtcp_def Let_def split: prod.splits)

lemma serve_cases:
  "(snd (serve_pli_request rq now stamp source) = []
      \<and> pli_latest (fst (serve_pli_request rq now stamp source)) = pli_latest source)
   \<or> (snd (serve_pli_request rq now stamp source)
         = [Sendto_pli (video_rtcp_fd source) (video_ssrc source)]
      \<and> now - pli_latest source \<ge> G_USEC_PER_SEC
      \<and> need_pli (fst (serve_pli_request rq now stamp source)) = 0
      \<and> pli_latest (fst (serve_pli_request rq now stamp source)) = stamp)"
proof (cases rq)
  case Direct_request
  then show ?thesis using pli_send_cases [of now stamp source] by simp
next
  case Loop_housekeeping
  then show ?thesis using pli_send_cases [of now stamp source] by (simp add: relay_thread_pli_def)
next
  case (Viewer_rtcp env st session vid f p bw)
  then show ?thesis using incoming_rtcp_cases [of env st session vid f p bw now stamp source] by simp
qed

lemma pli_run_spaced:
  "(\<forall>(q, t, t2) \<in> set rs. t \<le> t2) \<Longrightarrow> spaced (pli_latest source) (pli_run source rs)"
proof (induction rs arbitrary: source)
  case Nil
  show ?case by simp
next
  case (Cons r rs)
  obtain rq now stamp where r: "r = (rq, now, stamp)" by (cases r)
  obtain source1 sent where sv: "serve_pli_request rq now stamp source = (source1, sent)"
    by (cases "serve_pli_request rq now stamp source")
  from Cons.prems r have le: "now \<le> stamp" and rest: "\<forall>(q, t, t2) \<in> set rs. t \<le> t2"
    by auto
  note ih = Cons.IH [OF rest, of source1]
  from serve_cases [of rq now stamp source] sv
  consider "sent = []" "pli_latest source1 = pli_latest source"
    | "sent \<noteq> []" "now - pli_latest source \<ge> G_USEC_PER_SEC" "pli_latest source1 = stamp"
    by auto
  then show ?case
  proof cases
    case 1
    with ih show ?thesis by (simp add: r sv)
  next
    case 2
    with ih le show ?thesis by (simp add: r sv)
  qed
qed

text \<open>
  Claim C6. However a PLI is asked for (directly, by the relay loop's housekeeping, or by
  a viewer's RTCP feedback), none is emitted less than \<open>G_USEC_PER_SEC\<close> after
  \<open>pli_latest\<close>. On a source that can send, such a request sets \<open>need_pli\<close> and leaves
  \<open>pli_latest\<close> alone; this holds for a direct call and for a viewer's PLI or FIR that
  passes the callback's guards, and in the relay loop the flag stays set. Once the second
  has elapsed the relay loop, finding \<open>need_pli\<close> set, emits the PLI. Every emission
  clears \<open>need_pli\<close> and stores the send time in \<open>pli_latest\<close>; \<open>sending_pli\<close> is \<open>0\<close>
  again after every request. So along any run of requests whose second clock reading is
  not before the first, consecutive emissions are at least a second apart.
\<close>

theorem pli_throttle:
  "(now - pli_latest source < G_USEC_PER_SEC
      \<longrightarrow> snd (serve_pli_request rq now stamp source) = [])
   \<and> (pli_capable source \<and> now - pli_latest source < G_USEC_PER_SEC
      \<longrightarrow> need_pli (fst (janus_streaming_rtcp_pli_send now stamp source)) = 1
        \<and> pli_latest (fst (janus_streaming_rtcp_pli_send now stamp source)) = pli_latest source)
   \<and> (snd (janus_streaming_incoming_rtcp env st session True has_fir has_pli bw now stamp source) = []
        \<and> (has_fir \<or> has_pli) \<and> st = 0 \<and> g_stopping env = 0 \<and> g_initialized env \<noteq> 0
        \<and> destroyed session = 0 \<and> stopping session = 0 \<and> started session \<noteq> 0
        \<and> paused session = 0 \<and> pli_capable source
      \<longrightarrow> need_pli (fst (janus_streaming_incoming_rtcp env st session True has_fir has_pli bw
                          now stamp source)) = 1)
   \<and> (need_pli source \<noteq> 0 \<and> now - pli_latest source < G_USEC_PER_SEC
      \<longrightarrow> need_pli (fst (relay_thread_pli now stamp source)) \<noteq> 0)
   \<and> (need_pli source \<noteq> 0 \<and> pli_capable source \<and> now - pli_latest source \<ge> G_USEC_PER_SEC
      \<longrightarrow> snd (relay_thread_pli now stamp source)
            = [Sendto_pli (video_rtcp_fd source) (video_ssrc source)])
   \<and> (snd (serve_pli_request rq now stamp source) \<noteq> []
      \<longrightarrow> need_pli (fst (serve_pli_request rq now stamp source)) = 0
        \<and> pli_latest (fst (serve_pli_request rq now stamp source)) = stamp)
   \<and> (sending_pli source = 0 \<longrightarrow> sending_pli (fst (serve_pli_request rq now stamp source)) = 0)
   \<and> ((\<forall>(q, t, t2) \<in> set rs. t \<le> t2)
      \<longrightarrow> spaced (pli_latest source) (pli_run source rs))"
proof (intro conjI impI)
  assume "now - pli_latest source < G_USEC_PER_SEC"
  then show "snd (serve_pli_request rq now stamp source) = []"
    using serve_cases [of rq now stamp source] by auto
next
  assume "pli_capable source \<and> now - pli_latest source < G_USEC_PER_SEC"
  then show "need_pli (fst (janus_streaming_rtcp_pli_send now stamp source)) = 1"
    and "pli_latest (fst (janus_streaming_rtcp_pli_send now stamp source)) = pli_latest source"
    by (simp_all add: janus_streaming_rtcp_pli_send_def pli_capable_def)
next
  assume "snd (janus_streaming_incoming_rtcp env st session True has_fir has_pli bw now stamp source) = []
        \<and> (has_fir \<or> has_pli) \<and> st = 0 \<and> g_stopping env = 0 \<and> g_initialized env \<noteq> 0
        \<and> destroyed session = 0 \<and> stopping session = 0 \<and> started session \<noteq> 0
        \<and> paused session = 0 \<and> pli_capable source"
  then show "need_pli (fst (janus_streaming_incoming_rtcp env st session True has_fir has_pli bw
                          now stamp source)) = 1"
    by (auto simp: janus_streaming_incoming_rtcp_def janus_streaming_rtcp_pli_send_def
          pli_capable_def Let_def split: if_splits)
next
  assume "need_pli source \<noteq> 0 \<and> now - pli_latest source < G_USEC_PER_SEC"
  then show "need_pli (fst (relay_thread_pli now stamp source)) \<noteq> 0"
    by (simp add: relay_thread_pli_def janus_streaming_rtcp_pli_send_def)
next
  assume "need_pli source \<noteq> 0 \<and> pli_capable source \<and> now - pli_latest source \<ge> G_USEC_PER_SEC"
  then show "snd (relay_thread_pli now stamp source)
            = [Sendto_pli (video_rtcp_fd source) (video_ssrc source)]"
    by (simp add: relay_thread_pli_def janus_streaming_rtcp_pli_send_def pli_capable_def)
next
  assume "snd (serve_pli_request rq now stamp source) \<noteq> []"
  then show "need_pli (fst (serve_pli_request rq now stamp source)) = 0"
    and "pli_latest (fst (serve_pli_request rq now stamp source)) = stamp"
    using serve_cases [of rq now stamp source] by auto
next
  assume z: "sending_pli source = 0"
  show "sending_pli (fst (serve_pli_request rq now stamp source)) = 0"
  proof (cases rq)
    case Direct_request
    with z show ?thesis by (simp add: janus_streaming_rtcp_pli_send_def)
  next
    case Loop_housekeeping
    with z show ?thesis by (simp add: relay_thread_pli_def janus_streaming_rtcp_pli_send_def)
  next
    case (Viewer_rtcp env st session vid f p bw)
    with z show ?thesis
      by (simp add: janus_streaming_incoming_rtcp_def janus_streaming_rtcp_pli_send_def Let_def
            split: prod.splits)
  qed
next
  assume "\<forall>(q, t, t2) \<in> set rs. t \<le> t2"
  then show "spaced (pli_latest source) (pli_run source rs)" by (rule pli_run_spaced)
qed


theorem pli_throttle_witness:
  "(5500000 - pli_latest w_source < G_USEC_PER_SEC \<and> pli_capable w_source)
   \<and> snd (janus_streaming_rtcp_pli_send 5500000 5500001 w_source) = []
   \<and> need_pli (fst (janus_streaming_rtcp_pli_send 5500000 5500001 w_source)) = 1
   \<and> need_pli (fst (janus_streaming_incoming_rtcp w_env 0 w_session True False True 0
                       5500000 5500001 w_source)) = 1
   \<and> (need_pli (w_source\<lparr>need_pli := 1\<rparr>) \<noteq> 0 \<and> pli_capable (w_source\<lparr>need_pli := 1\<rparr>)
        \<and> 6200000 - pli_latest (w_source\<lparr>need_pli := 1\<rparr>) \<ge> G_USEC_PER_SEC)
   \<and> snd (relay_thread_pli 6200000 6200002 (w_source\<lparr>need_pli := 1\<rparr>)) = [Sendto_pli 5 77]
   \<and> need_pli (fst (relay_thread_pli 6200000 6200002 (w_source\<lparr>need_pli := 1\<rparr>))) = 0
   \<and> pli_latest (fst (relay_thread_pli 6200000 6200002 (w_source\<lparr>need_pli := 1\<rparr>))) = 6200002
   \<and> spaced 5000000
        (pli_run w_source
           [(Direct_request :: (unit, unit, unit) pli_request, 5500000, 5500001),
            (Loop_housekeeping, 6200000, 6200002),
            (Loop_housekeeping, 6300000, 6300001)])"
proof -
  let ?s1 = "w_source\<lparr>need_pli := 1\<rparr>"
  let ?rs = "[(Direct_request :: (unit, unit, unit) pli_request, 5500000 :: int, 5500001 :: int),
            (Loop_housekeeping, 6200000, 6200002),
            (Loop_housekeeping, 6300000, 6300001)]"
  have h1: "5500000 - pli_latest w_source < G_USEC_PER_SEC" "pli_capable w_source"
    by (simp_all add: w_source_def G_USEC_PER_SEC_def pli_capable_def)
  have h2: "need_pli ?s1 \<noteq> 0 \<and> pli_capable ?s1 \<and> 6200000 - pli_latest ?s1 \<ge> G_USEC_PER_SEC"
    by (simp add: w_source_def G_USEC_PER_SEC_def pli_capable_def)
  have h3: "\<forall>(q, t, t2) \<in> set ?rs. t \<le> t2" by simp
  have h4: "(0::int) = 0 \<and> g_stopping w_env = 0 \<and> g_initialized w_env \<noteq> 0
        \<and> destroyed w_session = 0 \<and> stopping w_session = 0 \<and> started w_session \<noteq> 0
        \<and> paused w_session = 0"
    by (simp add: w_env_def w_session_def)
  note t1 = pli_throttle [where now = 5500000 and stamp = 5500001 and source = w_source
      and rq = "Viewer_rtcp w_env 0 w_session True False True 0" and env = w_env and st = 0
      and session = w_session and has_fir = False and has_pli = True and bw = 0 and rs = ?rs]
  note t2 = pli_throttle [where now = 6200000 and stamp = 6200002 and source = ?s1
      and rq = "Loop_housekeeping :: (unit, unit, unit) pli_request" and env = w_env and st = 0
      and session = w_session and has_fir = False and has_pli = True and bw = 0 and rs = "[]"]
  note t1a = t1 [THEN conjunct1]
  note t1b = t1 [THEN conjunct2, THEN conjunct1]
  note t1c = t1 [THEN conjunct2, THEN conjunct2, THEN conjunct1]
  note t1h = t1 [THEN conjunct2, THEN conjunct2, THEN conjunct2, THEN conjunct2, THEN conjunct2,
                 THEN conjunct2, THEN conjunct2]
  note t2e = t2 [THEN conjunct2, THEN conjunct2, THEN conjunct2, THEN conjunct2, THEN conjunct1]
  note t2f = t2 [THEN conjunct2, THEN conjunct2, THEN conjunct2, THEN conjunct2, THEN conjunct2,
                 THEN conjunct1]
  have b: "need_pli (fst (janus_streaming_rtcp_pli_send 5500000 5500001 w_source)) = 1"
    using t1b h1 by simp
  have a: "snd (janus_streaming_rtcp_pli_send 5500000 5500001 w_source) = []"
    by (simp add: janus_streaming_rtcp_pli_send_def w_source_def G_USEC_PER_SEC_def)
  have e: "snd (janus_streaming_incoming_rtcp w_env 0 w_session True False True 0
                       5500000 5500001 w_source) = []"
    using t1a h1 by simp
  have c: "need_pli (fst (janus_streaming_incoming_rtcp w_env 0 w_session True False True 0
                       5500000 5500001 w_source)) = 1"
    using t1c e h1(2) h4 by simp
  have d: "snd (relay_thread_pli 6200000 6200002 ?s1)
        = [Sendto_pli (video_rtcp_fd ?s1) (video_ssrc ?s1)]"
    using t2e h2 by simp
  then have d': "snd (relay_thread_pli 6200000 6200002 ?s1) = [Sendto_pli 5 77]"
    by (simp add: w_source_def)
  have f: "need_pli (fst (relay_thread_pli 6200000 6200002 ?s1)) = 0"
      "pli_latest (fst (relay_thread_pli 6200000 6200002 ?s1)) = 6200002"
    using t2f d' by simp_all
  have g: "spaced (pli_latest w_source) (pli_run w_source ?rs)"
    using t1h h3 by simp
  have p: "pli_latest w_source = 5000000" by (simp add: w_source_def)
  from h1 h2 a b c d' f g show ?thesis by (simp add: p)
qed

end
